theory Spec2Isabelle
  imports Complex_Main "HOL-Library.Multiset"
begin

section \<open>Conventions of the embedding\<close>

text \<open>
  The engine is Python over pandas frames. Python floats are idealised as \<^typ>\<open>real\<close>; a
  cell that pandas holds as NaN (or None, NaT) is \<open>None\<close>, and every comparison with it
  is false, as in IEEE arithmetic. Timestamps are real numbers of days, a time difference
  is a real number of days, and \<open>.days\<close> of a difference is its floor. The range limits of
  the float and timestamp types are outside the model.
  Exceptions are values of \<open>py_error\<close>; a function whose body sits in \<open>try/except
  Exception\<close> is the body, returning \<open>py_error + _\<close>, followed by the handler.
\<close>

datatype py_error = KeyError | TypeError | NameError | ValueError | IndexError
  | IndexingError | AttributeError

type_synonym cell = "real option"

subsection \<open>NaN-aware arithmetic and comparisons\<close>

definition nan_add :: "cell \<Rightarrow> cell \<Rightarrow> cell" where
  "nan_add a b = (case a of None \<Rightarrow> None | Some x \<Rightarrow> (case b of None \<Rightarrow> None | Some y \<Rightarrow> Some (x + y)))"

definition nan_sub :: "cell \<Rightarrow> cell \<Rightarrow> cell" where
  "nan_sub a b = (case a of None \<Rightarrow> None | Some x \<Rightarrow> (case b of None \<Rightarrow> None | Some y \<Rightarrow> Some (x - y)))"

definition nan_scale :: "real \<Rightarrow> cell \<Rightarrow> cell" where
  "nan_scale k a = (case a of None \<Rightarrow> None | Some x \<Rightarrow> Some (k * x))"

definition nan_gt :: "cell \<Rightarrow> cell \<Rightarrow> bool" where
  "nan_gt a b = (case a of None \<Rightarrow> False | Some x \<Rightarrow> (case b of None \<Rightarrow> False | Some y \<Rightarrow> x > y))"

definition nan_lt :: "cell \<Rightarrow> cell \<Rightarrow> bool" where
  "nan_lt a b = (case a of None \<Rightarrow> False | Some x \<Rightarrow> (case b of None \<Rightarrow> False | Some y \<Rightarrow> x < y))"

subsection \<open>Column statistics of pandas (NaN skipped, sample standard deviation)\<close>

definition valid_values :: "cell list \<Rightarrow> real list" where
  "valid_values xs = List.map_filter (\<lambda>c. c) xs"

text \<open>\<open>Series.mean()\<close>: the mean of the cells that are not NaN, NaN when there is none.\<close>

definition col_mean :: "cell list \<Rightarrow> cell" where
  "col_mean xs =
     (let vs = valid_values xs
      in if vs = [] then None else Some (sum_list vs / real (length vs)))"

text \<open>\<open>Series.std()\<close>: \<open>ddof = 1\<close>, so NaN with fewer than two valid cells.\<close>

definition col_std :: "cell list \<Rightarrow> cell" where
  "col_std xs =
     (let vs = valid_values xs
      in if length vs \<le> 1 then None
         else (let m = sum_list vs / real (length vs)
               in Some (sqrt (sum_list (map (\<lambda>v. (v - m)\<^sup>2) vs) / real (length vs - 1)))))"

text \<open>\<open>Series.fillna(v)\<close>: a NaN fill value leaves the NaN cells as they are.\<close>

definition fillna :: "cell \<Rightarrow> cell list \<Rightarrow> cell list" where
  "fillna v xs = map (\<lambda>c. case c of None \<Rightarrow> v | Some x \<Rightarrow> Some x) xs"

subsection \<open>Frames\<close>

text \<open>
  A frame is its row index (the labels) and its columns, each a name and one cell for every
  row. \<open>DataFrame.empty\<close> holds when either axis has length zero.
\<close>

record 'k frame =
  index :: "'k list"
  columns :: "(string \<times> cell list) list"

definition wf_frame :: "'k frame \<Rightarrow> bool" where
  "wf_frame df = list_all (\<lambda>c. length (snd c) = length (index df)) (columns df)"

definition frame_empty :: "'k frame \<Rightarrow> bool" where
  "frame_empty df = (index df = [] \<or> columns df = [])"

text \<open>\<open>df.fillna(df.mean())\<close>: every column filled with its own mean.\<close>

definition fillna_mean :: "'k frame \<Rightarrow> 'k frame" where
  "fillna_mean df = df\<lparr>columns := map (\<lambda>c. (fst c, fillna (col_mean (snd c)) (snd c))) (columns df)\<rparr>"

text \<open>The result frame of the anomaly pass: one flag and one score for every row.\<close>

record 'k anomalies =
  a_index :: "'k list"
  is_anomaly :: "bool list"
  anomaly_score :: "real list"

section \<open>Small-sample anomaly detection (\<open>detect_project_anomalies\<close> of app.py)\<close>

text \<open>
  \<open>anomalies.loc[outliers, col]\<close> indexes the result frame with a boolean Series that
  carries the index of the metrics frame. pandas uses it as it is when the two
  indexes are equal; otherwise it looks every label of the result frame up in its
  index, raises IndexingError when a label is absent, and IndexError when the selection it
  collected has the wrong length (duplicate labels).
\<close>

definition positions :: "'k list \<Rightarrow> 'k \<Rightarrow> nat list" where
  "positions ks k = filter (\<lambda>j. ks ! j = k) [0..<length ks]"

definition check_bool_indexer :: "'k list \<Rightarrow> 'k list \<Rightarrow> bool list \<Rightarrow> py_error + bool list" where
  "check_bool_indexer idx key_idx msk =
     (if key_idx = idx then Inr msk
      else if list_ex (\<lambda>k. k \<notin> set key_idx) idx then Inl IndexingError
      else (let r = concat (map (\<lambda>k. map (\<lambda>j. msk ! j) (positions key_idx k)) idx)
            in if length r \<noteq> length idx then Inl IndexError else Inr r))"

text \<open>
  The boolean Series of one column:
  \<open>(metrics[col] > mean + 3*std) | (metrics[col] < mean - 3*std)\<close>.
\<close>

definition outliers :: "cell list \<Rightarrow> bool list" where
  "outliers col =
     (let mean = col_mean col; std = col_std col
      in map (\<lambda>c. nan_gt c (nan_add mean (nan_scale 3 std))
                 \<or> nan_lt c (nan_sub mean (nan_scale 3 std))) col)"

text \<open>
  \<open>anomalies.loc[outliers, 'is_anomaly'] = True\<close> and
  \<open>anomalies.loc[outliers, 'anomaly_score'] += 1\<close> on the rows the Series selects.
\<close>

definition flag_rows :: "bool list \<Rightarrow> 'k anomalies \<Rightarrow> 'k anomalies" where
  "flag_rows msk an =
     an\<lparr>is_anomaly := map (\<lambda>(m, f). m \<or> f) (zip msk (is_anomaly an)),
        anomaly_score := map (\<lambda>(m, s). if m then s + 1 else s) (zip msk (anomaly_score an))\<rparr>"

text \<open>The loop \<open>for col in metrics.columns\<close>.\<close>

fun small_sample_loop :: "'k list \<Rightarrow> (string \<times> cell list) list \<Rightarrow> 'k anomalies \<Rightarrow> py_error + 'k anomalies" where
  "small_sample_loop midx [] an = Inr an"
| "small_sample_loop midx (c # cs) an =
     (case check_bool_indexer (a_index an) midx (outliers (snd c)) of
        Inl e \<Rightarrow> Inl e
      | Inr msk \<Rightarrow> small_sample_loop midx cs (flag_rows msk an))"

definition initial_anomalies :: "'k list \<Rightarrow> 'k anomalies" where
  "initial_anomalies idx =
     \<lparr>a_index = idx, is_anomaly = replicate (length idx) False,
      anomaly_score = replicate (length idx) 0\<rparr>"

text \<open>
  The branch for ten rows or more standardises the matrix and runs scikit-learn's
  IsolationForest. Both are library code: \<open>forest contamination columns\<close> stands for
  \<open>(model.predict, model.decision_function)\<close> on the standardised matrix, and is an
  error where scikit-learn raises (a NaN left in the matrix).
\<close>

type_synonym forest = "real \<Rightarrow> cell list list \<Rightarrow> py_error + (int list \<times> real list)"

definition forest_anomalies :: "forest \<Rightarrow> real \<Rightarrow> 'k list \<Rightarrow> 'k frame \<Rightarrow> py_error + 'k anomalies" where
  "forest_anomalies forest contamination idx metrics =
     (case forest contamination (map snd (columns metrics)) of
        Inl e \<Rightarrow> Inl e
      | Inr (predictions, scores) \<Rightarrow>
          if length predictions \<noteq> length idx \<or> length scores \<noteq> length idx then Inl ValueError
          else Inr \<lparr>a_index = idx, is_anomaly = map (\<lambda>p. p = - 1) predictions,
                    anomaly_score = map abs scores\<rparr>)"

text \<open>The body of the \<open>try\<close> block; \<open>None\<close> is the empty \<open>pd.DataFrame()\<close>.\<close>

definition detect_body :: "forest \<Rightarrow> 'k frame \<Rightarrow> 'k frame \<Rightarrow> real \<Rightarrow> py_error + 'k anomalies option" where
  "detect_body forest projects_df metrics_df contamination =
     (if frame_empty projects_df \<or> frame_empty metrics_df then Inr None
      else (let metrics = fillna_mean metrics_df
            in if length (index metrics) < 10
               then (case small_sample_loop (index metrics) (columns metrics)
                            (initial_anomalies (index projects_df)) of
                       Inl e \<Rightarrow> Inl e | Inr an \<Rightarrow> Inr (Some an))
               else (case forest_anomalies forest contamination (index projects_df) metrics of
                       Inl e \<Rightarrow> Inl e | Inr an \<Rightarrow> Inr (Some an))))"

text \<open>\<open>except Exception: return pd.DataFrame()\<close>.\<close>

definition detect_project_anomalies :: "forest \<Rightarrow> 'k frame \<Rightarrow> 'k frame \<Rightarrow> real \<Rightarrow> 'k anomalies option" where
  "detect_project_anomalies forest projects_df metrics_df contamination =
     (case detect_body forest projects_df metrics_df contamination of
        Inl e \<Rightarrow> None | Inr r \<Rightarrow> r)"

subsection \<open>Example frames\<close>

definition example_projects :: "nat frame" where
  "example_projects =
     \<lparr>index = [0, 1, 2, 3, 4, 5, 6, 7, 8],
      columns = [(''budget'', map Some [100, 100, 100, 100, 100, 100, 100, 100, 100])]\<rparr>"

definition example_metrics :: "nat frame" where
  "example_metrics =
     \<lparr>index = [0, 1, 2, 3, 4, 5, 6, 7, 8],
      columns = [(''spi'', map Some [1, 2, 3, 4, 5, 6, 7, 8, 1000])]\<rparr>"

definition no_forest :: forest where
  "no_forest contamination cols = Inl ValueError"

definition small_projects :: "string frame" where
  "small_projects =
     \<lparr>index = [''P001'', ''P002'', ''P003''],
      columns = [(''budget'', [Some 100, Some 250, None])]\<rparr>"

definition small_metrics :: "string frame" where
  "small_metrics =
     \<lparr>index = [''P001'', ''P002'', ''P003''],
      columns = [(''spi'', [Some 1, None, Some (1 / 2)]), (''cpi'', [Some 1, Some 1, Some 40])]\<rparr>"

section \<open>Projects, tasks and history\<close>

text \<open>
  A project is a row of the project table, read as a pandas Series. An entry of the row can
  be absent (\<open>'key' in project\<close> is false and \<open>project['key']\<close> raises KeyError), null
  (\<open>pd.isnull\<close> holds: NaN, None or NaT) or a value. Dates are already parsed.
\<close>

datatype 'a field = Absent | Null | Val 'a

record 'k project =
  project_id :: 'k
  status :: "string field"
  planned_start :: "real field"
  planned_end :: "real field"
  spi :: "real field"
  cpi :: "real field"
  budget :: "real field"
  actual_cost :: "real field"
  completion_pct :: "real field"
  risk_count :: "real field"

text \<open>\<open>'key' in project\<close>.\<close>

definition present :: "'a field \<Rightarrow> bool" where
  "present f = (f \<noteq> Absent)"

text \<open>\<open>project['key']\<close> of a numeric entry: KeyError, NaN or the number.\<close>

definition getitem :: "real field \<Rightarrow> py_error + cell" where
  "getitem f = (case f of Absent \<Rightarrow> Inl KeyError | Null \<Rightarrow> Inr None | Val v \<Rightarrow> Inr (Some v))"

definition nan_mul :: "cell \<Rightarrow> cell \<Rightarrow> cell" where
  "nan_mul a b = (case a of None \<Rightarrow> None | Some x \<Rightarrow> (case b of None \<Rightarrow> None | Some y \<Rightarrow> Some (x * y)))"

text \<open>Division where the source has checked that the divisor is positive.\<close>

definition nan_div :: "cell \<Rightarrow> real \<Rightarrow> cell" where
  "nan_div a d = (case a of None \<Rightarrow> None | Some x \<Rightarrow> Some (x / d))"

text \<open>
  The task table of one project. \<open>planned_cost\<close> is always there; the two other columns
  are looked for with \<open>in tasks_data.columns\<close> by one of the forecasters.
\<close>

record task =
  planned_cost :: cell
  task_actual_cost :: cell
  earned_value :: cell

record tasks_frame =
  tasks :: "task list"
  has_earned_value :: bool
  has_actual_cost :: bool

text \<open>\<open>Series.sum()\<close> skips NaN and is 0 on an empty column.\<close>

definition col_sum :: "cell list \<Rightarrow> real" where
  "col_sum xs = sum_list (valid_values xs)"

text \<open>
  The history of one project: a row for every month, with the month as a sortable key.
  The \<open>spi\<close> and \<open>cpi\<close> columns may be missing from the frame; the entries of a missing
  column are not read.
\<close>

record 'm history_row =
  month :: 'm
  h_spi :: cell
  h_cpi :: cell

record 'm history_frame =
  h_rows :: "'m history_row list"
  has_spi :: bool
  has_cpi :: bool


section \<open>The earned-value forecast of app.py (\<open>forecast_project_completion\<close>)\<close>

datatype risk_factor =
    SpiSignificantlyBelow | SpiBelow | CpiSignificantlyBelow | CpiBelow
  | SignificantDelay int | ModerateDelay int
  | SignificantOverrun real | ModerateOverrun real
  | HighRiskCount real

record forecast =
  forecast_completion_date :: "real option"
  completion_confidence :: int
  forecast_final_cost :: "real option"
  schedule_variance_days :: int
  cost_variance :: real
  risk_factors :: "risk_factor list"

definition initial_forecast :: forecast where
  "initial_forecast =
     \<lparr>forecast_completion_date = None, completion_confidence = 0, forecast_final_cost = None,
      schedule_variance_days = 0, cost_variance = 0, risk_factors = []\<rparr>"

text \<open>
  The schedule block. \<open>now\<close> is \<open>datetime.now()\<close>; \<open>(a - b).days\<close> is the floor of the
  difference in days.
\<close>

definition schedule_stage :: "real \<Rightarrow> 'k project \<Rightarrow> forecast \<Rightarrow> forecast" where
  "schedule_stage now p f =
     (case planned_end p of
        Val pe \<Rightarrow>
          (case planned_start p of
             Val ps \<Rightarrow>
               (case spi p of
                  Val s \<Rightarrow>
                    if s > 0 then
                      (let planned_duration = \<lfloor>pe - ps\<rfloor>;
                           elapsed_days = (if now < ps then 0 else \<lfloor>now - ps\<rfloor>);
                           remaining_duration = max 0 (of_int (planned_duration - elapsed_days) / s);
                           completion = ps + (of_int elapsed_days + remaining_duration)
                       in f\<lparr>forecast_completion_date := Some completion,
                            schedule_variance_days := \<lfloor>completion - pe\<rfloor>,
                            completion_confidence := (if s \<le> 1 then \<lfloor>70 * s\<rfloor> else 70)\<rparr>)
                    else f
                | _ \<Rightarrow> f)
           | _ \<Rightarrow> f)
      | _ \<Rightarrow> f)"

text \<open>The cost block: it is entered only with a budget and a CPI above zero.\<close>

definition cost_stage :: "'k project \<Rightarrow> forecast \<Rightarrow> forecast" where
  "cost_stage p f =
     (case budget p of
        Val b \<Rightarrow>
          (case cpi p of
             Val c \<Rightarrow>
               if c > 0 then
                 (let spent =
                        (case actual_cost p of
                           Val a \<Rightarrow> a
                         | _ \<Rightarrow>
                            (case completion_pct p of
                               Val pc \<Rightarrow> b * (min 100 (max 0 pc) / 100) / c
                             | _ \<Rightarrow> b * (1 / 2) / c));
                      eac = spent + (b - spent) / c
                  in f\<lparr>forecast_final_cost := Some eac, cost_variance := eac - b\<rparr>)
               else f
           | _ \<Rightarrow> f)
      | _ \<Rightarrow> f)"

text \<open>
  The thresholds are attributes of the session state; reading one that was never set
  raises AttributeError.
\<close>

record thresholds =
  spi_threshold :: "real option"
  cpi_threshold :: "real option"

definition index_risks :: "real field \<Rightarrow> real option \<Rightarrow> risk_factor \<Rightarrow> risk_factor
    \<Rightarrow> py_error + risk_factor list" where
  "index_risks v threshold significantly below =
     (case v of
        Val x \<Rightarrow>
          (case threshold of
             None \<Rightarrow> Inl AttributeError
           | Some t \<Rightarrow> Inr (if x < t - 1 / 10 then [significantly] else if x < t then [below] else []))
      | _ \<Rightarrow> Inr [])"

definition schedule_risks :: "forecast \<Rightarrow> risk_factor list" where
  "schedule_risks f =
     (let d = schedule_variance_days f
      in if d > 0 then (if d > 30 then [SignificantDelay d] else if d > 10 then [ModerateDelay d] else [])
         else [])"

definition cost_risks :: "'k project \<Rightarrow> forecast \<Rightarrow> risk_factor list" where
  "cost_risks p f =
     (if cost_variance f > 0 then
        (let b = (case budget p of Val b \<Rightarrow> b | _ \<Rightarrow> 0)
         in if b > 0 then
              (let cost_overrun_pct = cost_variance f / b * 100
               in if cost_overrun_pct > 20 then [SignificantOverrun cost_overrun_pct]
                  else if cost_overrun_pct > 10 then [ModerateOverrun cost_overrun_pct] else [])
            else [])
      else [])"

definition count_risks :: "'k project \<Rightarrow> risk_factor list" where
  "count_risks p = (case risk_count p of Val n \<Rightarrow> (if n > 5 then [HighRiskCount n] else []) | _ \<Rightarrow> [])"

definition risk_stage :: "thresholds \<Rightarrow> 'k project \<Rightarrow> forecast \<Rightarrow> py_error + forecast" where
  "risk_stage th p f =
     (case index_risks (spi p) (spi_threshold th) SpiSignificantlyBelow SpiBelow of
        Inl e \<Rightarrow> Inl e
      | Inr r1 \<Rightarrow>
          (case index_risks (cpi p) (cpi_threshold th) CpiSignificantlyBelow CpiBelow of
             Inl e \<Rightarrow> Inl e
           | Inr r2 \<Rightarrow>
               Inr (f\<lparr>risk_factors := r1 @ r2 @ schedule_risks f @ cost_risks p f @ count_risks p\<rparr>)))"

text \<open>
  The function: the three blocks inside \<open>try\<close>, and \<open>except Exception\<close>, which returns the
  dictionary as the blocks before the exception left it. The task and history arguments
  of the source are not read by it.
\<close>

definition forecast_project_completion :: "thresholds \<Rightarrow> real \<Rightarrow> 'k project \<Rightarrow> forecast" where
  "forecast_project_completion th now p =
     (let f = cost_stage p (schedule_stage now p initial_forecast)
      in case risk_stage th p f of Inl e \<Rightarrow> f | Inr f' \<Rightarrow> f')"

section \<open>The forecast of utils/advanced_analytics.py (\<open>forecast_project_completion\<close>)\<close>

record aa_results =
  aa_forecast_completion_date :: "real option"
  aa_forecast_final_cost :: "cell option"
  aa_schedule_variance_days :: "int option"
  aa_cost_variance :: "cell option"
  aa_completion_confidence :: "int option"

definition aa_initial :: aa_results where
  "aa_initial =
     \<lparr>aa_forecast_completion_date = None, aa_forecast_final_cost = None,
      aa_schedule_variance_days = None, aa_cost_variance = None,
      aa_completion_confidence = None\<rparr>"

text \<open>\<open>int(x)\<close> of a float truncates towards zero.\<close>

definition py_int :: "real \<Rightarrow> int" where
  "py_int x = (if x \<ge> 0 then \<lfloor>x\<rfloor> else \<lceil>x\<rceil>)"

text \<open>
  The two dates of a forecaster that reads them without a guard: a missing key raises
  KeyError, and a null date raises when the day count built from it reaches \<open>timedelta\<close>.
\<close>

definition read_dates :: "'k project \<Rightarrow> py_error + (real \<times> real)" where
  "read_dates p =
     (case planned_end p of
        Absent \<Rightarrow> Inl KeyError
      | Null \<Rightarrow> (case planned_start p of Absent \<Rightarrow> Inl KeyError | _ \<Rightarrow> Inl ValueError)
      | Val pe \<Rightarrow>
          (case planned_start p of
             Absent \<Rightarrow> Inl KeyError | Null \<Rightarrow> Inl ValueError | Val ps \<Rightarrow> Inr (ps, pe)))"

text \<open>SPI and CPI from the task sums, with the defaults of the source.\<close>

definition aa_indices :: "tasks_frame \<Rightarrow> real \<times> real \<times> real \<times> real" where
  "aa_indices tf =
     (let total_planned_value = col_sum (map planned_cost (tasks tf));
          total_earned_value = (if has_earned_value tf then col_sum (map earned_value (tasks tf)) else 0);
          total_actual_cost = (if has_actual_cost tf then col_sum (map task_actual_cost (tasks tf)) else 0);
          s = (if total_planned_value > 0 then total_earned_value / total_planned_value else 1);
          c = (if total_planned_value > 0
               then (if total_actual_cost > 0 then total_earned_value / total_actual_cost else 1)
               else 1)
      in (s, c, total_earned_value, total_actual_cost))"

definition aa_forecast_project_completion ::
    "real \<Rightarrow> 'k project option \<Rightarrow> tasks_frame \<Rightarrow> py_error + aa_results" where
  "aa_forecast_project_completion now project_data tasks_data =
     (case project_data of
        None \<Rightarrow> Inr aa_initial
      | Some p \<Rightarrow>
          if tasks tasks_data = [] then Inr aa_initial
          else
            (case aa_indices tasks_data of
               (s, c, total_earned_value, total_actual_cost) \<Rightarrow>
                 (case read_dates p of
                    Inl e \<Rightarrow> Inl e
                  | Inr (ps, pe) \<Rightarrow>
                      (let planned_duration = \<lfloor>pe - ps\<rfloor>;
                           elapsed_days = \<lfloor>now - ps\<rfloor>;
                           remaining_duration =
                             (if s > 0 then of_int (planned_duration - elapsed_days) / s
                              else of_int (planned_duration - elapsed_days));
                           forecast_completion = ps + (of_int elapsed_days + remaining_duration)
                       in case getitem (budget p) of
                            Inl e \<Rightarrow> Inl e
                          | Inr b \<Rightarrow>
                              (let forecast_cost =
                                     (if c > 0
                                      then nan_add (Some total_actual_cost)
                                             (nan_div (nan_sub b (Some total_earned_value)) c)
                                      else nan_scale (3 / 2) b);
                                   confidence = (min 1 s * (1 / 2) + min 1 c * (1 / 2)) * 100
                               in Inr \<lparr>aa_forecast_completion_date = Some forecast_completion,
                                        aa_forecast_final_cost = Some forecast_cost,
                                        aa_schedule_variance_days = Some \<lfloor>forecast_completion - pe\<rfloor>,
                                        aa_cost_variance = Some (nan_sub forecast_cost b),
                                        aa_completion_confidence = Some (py_int confidence)\<rparr>)))))"

section \<open>The prediction of utils/predictive_analytics.py (\<open>predict_project_completion\<close>)\<close>

record pa_results =
  pa_forecast_completion_date :: real
  pa_schedule_variance_days :: "int option"
  pa_forecast_cost :: cell
  pa_cost_variance :: cell
  pa_schedule_confidence :: int
  pa_cost_confidence :: int
  pa_overall_confidence :: real
  pa_progress_percentage :: real

text \<open>
  Progress, SPI and CPI. This function reads the \<open>earned_value\<close> and \<open>actual_cost\<close>
  columns without looking for them first. A day count is \<open>None\<close> when it is NaN, which
  is what \<open>.days\<close> gives for a difference with a null date.
\<close>

definition pa_indices :: "tasks_frame \<Rightarrow> int option \<Rightarrow> int option \<Rightarrow> py_error + (real \<times> real \<times> real)" where
  "pa_indices tf planned_duration elapsed_days =
     (if tasks tf \<noteq> [] then
        (if \<not> has_earned_value tf \<or> \<not> has_actual_cost tf then Inl KeyError
         else
           (let total_planned_cost = col_sum (map planned_cost (tasks tf));
                total_earned_value = col_sum (map earned_value (tasks tf));
                total_actual_cost = col_sum (map task_actual_cost (tasks tf))
            in if total_planned_cost > 0
               then Inr (total_earned_value / total_planned_cost,
                         total_earned_value / total_planned_cost,
                         (if total_actual_cost > 0 then total_earned_value / total_actual_cost else 1))
               else Inr (0, 1, 1)))
      else
        (case planned_duration of
           None \<Rightarrow> Inr (0, 1, 1)
         | Some d \<Rightarrow>
             (case elapsed_days of
                None \<Rightarrow> Inr (0, 1, 1)
              | Some e \<Rightarrow> Inr ((if d > 0 then of_int e / of_int d else 0), 1, 1))))"

definition pa_confidence :: "real \<Rightarrow> int" where
  "pa_confidence x = min 100 (py_int (100 * (1 - (1 / 2) * \<bar>1 - x\<bar>)))"

text \<open>
  The function has no \<open>try\<close>. A missing date key raises at once, a missing task column
  next, and a null start date when the completion date is built from it. With a null end
  date alone the remaining duration is NaN: \<open>max(0, nan)\<close> is 0, no day is added to the
  elapsed ones, and the schedule variance is NaN.
\<close>

definition predict_project_completion ::
    "real \<Rightarrow> 'k project \<Rightarrow> tasks_frame \<Rightarrow> py_error + pa_results" where
  "predict_project_completion now project_data tasks_data =
     (if planned_end project_data = Absent \<or> planned_start project_data = Absent then Inl KeyError
      else
        (let elapsed = (case planned_start project_data of Val ps \<Rightarrow> Some \<lfloor>now - ps\<rfloor> | _ \<Rightarrow> None);
             planned_duration =
               (case planned_start project_data of
                  Val ps \<Rightarrow> (case planned_end project_data of Val pe \<Rightarrow> Some \<lfloor>pe - ps\<rfloor> | _ \<Rightarrow> None)
                | _ \<Rightarrow> None)
         in case pa_indices tasks_data planned_duration elapsed of
              Inl e \<Rightarrow> Inl e
            | Inr (progress, s, c) \<Rightarrow>
                (case planned_start project_data of
                   Val ps \<Rightarrow>
                     (let elapsed_days = \<lfloor>now - ps\<rfloor>;
                          progress_pct = min 1 progress;
                          remaining_duration =
                            (case planned_duration of Some d \<Rightarrow> Some (d - elapsed_days) | None \<Rightarrow> None);
                          adjusted_remaining =
                            (case remaining_duration of
                               Some r \<Rightarrow> max 0 (if s > 0 then of_int r / s else of_int r * 2)
                             | None \<Rightarrow> 0);
                          remaining_days = py_int adjusted_remaining
                      in case getitem (budget project_data) of
                           Inl e \<Rightarrow> Inl e
                         | Inr b \<Rightarrow>
                             (let spent = nan_scale progress_pct b;
                                  eac = (if c > 0 then nan_add spent (nan_div (nan_sub b spent) c)
                                         else nan_scale 2 b)
                              in Inr \<lparr>pa_forecast_completion_date = ps + of_int (elapsed_days + remaining_days),
                                       pa_schedule_variance_days =
                                         (case remaining_duration of
                                            Some r \<Rightarrow> Some (remaining_days - r) | None \<Rightarrow> None),
                                       pa_forecast_cost = eac,
                                       pa_cost_variance = nan_sub eac b,
                                       pa_schedule_confidence = pa_confidence s,
                                       pa_cost_confidence = pa_confidence c,
                                       pa_overall_confidence =
                                         of_int (pa_confidence s + pa_confidence c) / 2,
                                       pa_progress_percentage = progress_pct * 100\<rparr>))
                 | _ \<Rightarrow> Inl ValueError)))"

section \<open>The ensemble forecast of app.py (\<open>generate_ensemble_forecast\<close>)\<close>

record ensemble_results =
  completion_date :: "real option"
  completion_date_best :: "real option"
  completion_date_worst :: "real option"
  final_cost :: "cell option"
  final_cost_best :: "cell option"
  final_cost_worst :: "cell option"
  confidence :: "real option"
  forecast_models :: "string list"

text \<open>
  The model follows the function up to \<open>results['confidence'] = confidence\<close>. The
  statements after it only build \<open>results['risk_factors']\<close>, and an exception there
  leaves the other entries as they are; that entry is not part of the record.
\<close>

definition initial_results :: ensemble_results where
  "initial_results =
     \<lparr>completion_date = None, completion_date_best = None, completion_date_worst = None,
      final_cost = None, final_cost_best = None, final_cost_worst = None,
      confidence = None, forecast_models = []\<rparr>"

subsection \<open>The EVM component\<close>

text \<open>
  What the first block leaves behind: the EVM date, the EVM cost (Python \<open>None\<close> when
  there is no budget entry), and \<open>planned_duration\<close> and \<open>elapsed_days\<close>, which are bound
  only in the branch with a positive SPI.
\<close>

record evm_forecast =
  evm_completion_date :: real
  evm_final_cost :: "cell option"
  durations :: "(int \<times> int) option"

definition cell_of :: "real field \<Rightarrow> cell" where
  "cell_of f = (case f of Val v \<Rightarrow> Some v | _ \<Rightarrow> None)"

definition evm_cost :: "'k project \<Rightarrow> real \<Rightarrow> py_error + cell" where
  "evm_cost p s =
     (case (if present (budget p) then cpi p else Absent) of
        Val c \<Rightarrow>
          if c > 0 then
            (let b = cell_of (budget p);
                 spent =
                   (if present (actual_cost p) then cell_of (actual_cost p)
                    else (let progress = (case completion_pct p of Val pc \<Rightarrow> pc / 100 | _ \<Rightarrow> 1 / 2)
                          in nan_div (nan_scale progress b) c))
             in Inr (nan_add spent (nan_div (nan_sub b (nan_scale s b)) c)))
          else (case getitem (budget p) of Inl e \<Rightarrow> Inl e | Inr b \<Rightarrow> Inr (nan_scale (11 / 10) b))
      | _ \<Rightarrow> (case getitem (budget p) of Inl e \<Rightarrow> Inl e | Inr b \<Rightarrow> Inr (nan_scale (11 / 10) b)))"

text \<open>
  The block returns the models it has appended together with its outcome: \<open>"EVM"\<close> is
  appended before the cost is computed, so it stays in the list when the cost raises.
\<close>

definition evm_part :: "real \<Rightarrow> 'k project \<Rightarrow> real \<Rightarrow> real \<Rightarrow> string list \<times> (py_error + evm_forecast)" where
  "evm_part now p ps pe =
     (case (if present (cpi p) then spi p else Absent) of
        Val s \<Rightarrow>
          if s > 0 then
            (let planned_duration = \<lfloor>pe - ps\<rfloor>;
                 elapsed_days = \<lfloor>now - ps\<rfloor>;
                 remaining_duration = of_int (planned_duration - elapsed_days) / s;
                 completion = ps + (of_int elapsed_days + remaining_duration)
             in ([''EVM''],
                 (case evm_cost p s of
                    Inl e \<Rightarrow> Inl e
                  | Inr c \<Rightarrow> Inr \<lparr>evm_completion_date = completion, evm_final_cost = Some c,
                                  durations = Some (planned_duration, elapsed_days)\<rparr>)))
          else ([], Inr \<lparr>evm_completion_date = pe + 15,
                          evm_final_cost = (if present (budget p)
                                            then Some (nan_scale (11 / 10) (cell_of (budget p))) else None),
                          durations = None\<rparr>)
      | _ \<Rightarrow> ([], Inr \<lparr>evm_completion_date = pe + 15,
                        evm_final_cost = (if present (budget p)
                                          then Some (nan_scale (11 / 10) (cell_of (budget p))) else None),
                        durations = None\<rparr>))"

subsection \<open>The trend component\<close>

text \<open>
  scikit-learn's \<open>LinearRegression\<close> on one feature is the least-squares line; \<open>fit\<close>
  raises ValueError on a NaN in the targets.
\<close>

definition mean :: "real list \<Rightarrow> real" where
  "mean xs = sum_list xs / real (length xs)"

definition ols_fit :: "real list \<Rightarrow> real list \<Rightarrow> real \<times> real" where
  "ols_fit xs ys =
     (let xbar = mean xs; ybar = mean ys;
          slope = sum_list (map (\<lambda>(x, y). (x - xbar) * (y - ybar)) (zip xs ys))
                    / sum_list (map (\<lambda>x. (x - xbar)\<^sup>2) xs)
      in (slope, ybar - slope * xbar))"

definition ols_predict :: "real \<times> real \<Rightarrow> real \<Rightarrow> real" where
  "ols_predict m x = snd m + fst m * x"

text \<open>
  The fit against \<open>month_num = 0, ..., n - 1\<close>, the forecast for the next
  \<open>forecast_horizon\<close> months and its mean (\<open>np.mean\<close> of no value is NaN).
\<close>

definition trend_average :: "nat \<Rightarrow> cell list \<Rightarrow> py_error + cell" where
  "trend_average forecast_periods ys =
     (if list_ex (\<lambda>y. y = None) ys then Inl ValueError
      else
        (let n = length ys;
             model = ols_fit (map real [0..<n]) (valid_values ys);
             forecasted = map (\<lambda>x. ols_predict model (real x)) [n..<n + forecast_periods]
         in Inr (if forecasted = [] then None else Some (mean forecasted))))"

text \<open>
  The SPI block: \<open>None\<close> when the column is missing or the average is not positive. A
  positive average needs \<open>planned_duration\<close> and \<open>elapsed_days\<close>, which are unbound after
  the default EVM branch (NameError).
\<close>

definition trend_date :: "nat \<Rightarrow> 'm history_row list \<Rightarrow> bool \<Rightarrow> real \<Rightarrow> (int \<times> int) option
    \<Rightarrow> py_error + real option" where
  "trend_date forecast_periods hs spi_column ps dur =
     (if spi_column then
        (case trend_average forecast_periods (map h_spi hs) of
           Inl e \<Rightarrow> Inl e
         | Inr None \<Rightarrow> Inr None
         | Inr (Some avg_future_spi) \<Rightarrow>
             if avg_future_spi > 0 then
               (case dur of
                  None \<Rightarrow> Inl NameError
                | Some (planned_duration, elapsed_days) \<Rightarrow>
                    Inr (Some (ps + (of_int elapsed_days
                          + of_int (planned_duration - elapsed_days) / avg_future_spi))))
             else Inr None)
      else Inr None)"

text \<open>
  The CPI block. \<open>future_months\<close> is bound in the SPI block only, so without an SPI
  column \<open>predict\<close> raises NameError.
\<close>

definition trend_cost :: "nat \<Rightarrow> 'm history_row list \<Rightarrow> bool \<Rightarrow> bool \<Rightarrow> 'k project
    \<Rightarrow> py_error + cell option" where
  "trend_cost forecast_periods hs spi_column cpi_column p =
     (if cpi_column \<and> present (budget p) \<and> present (actual_cost p) then
        (case trend_average forecast_periods (map h_cpi hs) of
           Inl e \<Rightarrow> Inl e
         | Inr avg \<Rightarrow>
             if \<not> spi_column then Inl NameError
             else
               (case avg of
                  None \<Rightarrow> Inr None
                | Some avg_future_cpi \<Rightarrow>
                    if avg_future_cpi > 0 then
                      (let b = cell_of (budget p); a = cell_of (actual_cost p)
                       in Inr (Some (nan_add a (nan_div (nan_sub b a) avg_future_cpi))))
                    else Inr None))
      else Inr None)"

text \<open>
  The inner \<open>try\<close>: on an exception both trend values are reset to \<open>None\<close>, while a
  \<open>"Linear Regression"\<close> already appended stays in the list.
\<close>

definition ml_part :: "(('m history_row \<Rightarrow> 'm::linorder) \<Rightarrow> 'm history_row list \<Rightarrow> 'm history_row list)
    \<Rightarrow> nat \<Rightarrow> 'k project \<Rightarrow> real \<Rightarrow> (int \<times> int) option \<Rightarrow> 'm history_frame option
    \<Rightarrow> string list \<Rightarrow> real option \<times> cell option \<times> string list" where
  "ml_part srt forecast_periods p ps dur history_df models =
     (case history_df of
        None \<Rightarrow> (None, None, models)
      | Some h \<Rightarrow>
          if length (h_rows h) \<ge> 3 then
            (let history_sorted = srt month (h_rows h)
             in case trend_date forecast_periods history_sorted (has_spi h) ps dur of
                  Inl e \<Rightarrow> (None, None, models)
                | Inr ml_completion_date \<Rightarrow>
                    (let models' = (if ml_completion_date \<noteq> None
                                    then models @ [''Linear Regression''] else models)
                     in case trend_cost forecast_periods history_sorted (has_spi h) (has_cpi h) p of
                          Inl e \<Rightarrow> (None, None, models')
                        | Inr ml_final_cost \<Rightarrow> (ml_completion_date, ml_final_cost, models')))
          else (None, None, models))"

subsection \<open>Combining the two\<close>

text \<open>
  With a trend date the source evaluates \<open>ml_completion_date * 0.75 +
  evm_completion_date * 0.25\<close> on two timestamps. A timestamp cannot be multiplied by
  a float: the expression raises TypeError, and the handler of the outer \<open>try\<close> returns
  the dictionary with nothing but the model names in it. The costs are floats, and their
  weighted sum raises only when the EVM cost is \<open>None\<close>; so does \<open>final_cost * 0.95\<close>,
  after the three dates and the cost have been stored.
\<close>

definition combine_cost :: "cell option \<Rightarrow> cell option \<Rightarrow> py_error + cell option" where
  "combine_cost ml_final_cost evm_cost_opt =
     (case ml_final_cost of
        Some mc \<Rightarrow>
          (case evm_cost_opt of
             None \<Rightarrow> Inl TypeError
           | Some ec \<Rightarrow> Inr (Some (nan_add (nan_scale (3 / 4) mc) (nan_scale (1 / 4) ec))))
      | None \<Rightarrow> Inr evm_cost_opt)"

definition combine :: "real \<Rightarrow> real \<Rightarrow> evm_forecast \<Rightarrow> real option \<Rightarrow> cell option \<Rightarrow> string list
    \<Rightarrow> ensemble_results" where
  "combine ps pe evm ml_completion_date ml_final_cost models =
     (case ml_completion_date of
        Some d \<Rightarrow> initial_results\<lparr>forecast_models := models\<rparr>
      | None \<Rightarrow>
          (case combine_cost ml_final_cost (evm_final_cost evm) of
             Inl e \<Rightarrow> initial_results\<lparr>forecast_models := models\<rparr>
           | Inr cost \<Rightarrow>
               (let completion = evm_completion_date evm;
                    completion_buffer = of_int \<lfloor>pe - ps\<rfloor> * (15 / 100);
                    stored = initial_results
                      \<lparr>completion_date := Some completion,
                       completion_date_best := Some (completion - completion_buffer / 2),
                       completion_date_worst := Some (completion + completion_buffer),
                       final_cost := cost,
                       forecast_models := models\<rparr>
                in case cost of
                     None \<Rightarrow> stored
                   | Some c \<Rightarrow>
                       stored\<lparr>final_cost_best := Some (nan_scale (95 / 100) c),
                              final_cost_worst := Some (nan_scale (12 / 10) c),
                              confidence := Some (6 / 10)\<rparr>)))"

text \<open>
  The function. A missing or null planned date returns the initial dictionary (the early
  \<open>return results\<close>, or KeyError and the handler).
\<close>

definition generate_ensemble_forecast ::
    "(('m history_row \<Rightarrow> 'm::linorder) \<Rightarrow> 'm history_row list \<Rightarrow> 'm history_row list)
     \<Rightarrow> nat \<Rightarrow> real \<Rightarrow> 'k project \<Rightarrow> 'm history_frame option \<Rightarrow> ensemble_results" where
  "generate_ensemble_forecast srt forecast_horizon now p history_df =
     (case planned_start p of
        Val ps \<Rightarrow>
          (case planned_end p of
             Val pe \<Rightarrow>
               (case evm_part now p ps pe of
                  (models, Inl e) \<Rightarrow> initial_results\<lparr>forecast_models := models\<rparr>
                | (models, Inr evm) \<Rightarrow>
                    (case ml_part srt forecast_horizon p ps (durations evm) history_df models of
                       (ml_completion_date, ml_final_cost, models') \<Rightarrow>
                         combine ps pe evm ml_completion_date ml_final_cost models'))
           | _ \<Rightarrow> initial_results)
      | _ \<Rightarrow> initial_results)"


section \<open>The forecast batch and its cache (\<open>generate_project_forecasts\<close> of app.py)\<close>

text \<open>
  An entry of the result: the forecast of the project, extended by the loop with the
  narrative insights and the anomaly flag and score.
\<close>

record forecast_entry = forecast +
  insights :: "string list"
  entry_is_anomaly :: bool
  entry_anomaly_score :: real

text \<open>
  The session state, as far as the function reads and writes it. An entry that was never
  stored is \<open>None\<close>. The anomaly frame is \<open>None\<close> when the session has none (the entry
  is missing or \<open>None\<close>) and when it is the empty frame; its labels are unique. The task
  and history tables are sliced by the loop, but the forecaster does not read the slices.
\<close>

record 'k session =
  data_loaded :: bool
  project_forecasts :: "('k \<times> forecast_entry) list option"
  forecast_generated_at :: "real option"
  session_projects :: "'k project list"
  session_thresholds :: thresholds
  session_anomalies :: "'k anomalies option"

text \<open>
  The readings of \<open>datetime.now()\<close>: at the freshness check, inside the forecast of the
  \<open>i\<close>-th project, and when the new timestamp is stored. Times are in days.
\<close>

record clock =
  at_check :: real
  at_project :: "nat \<Rightarrow> real"
  at_store :: real

text \<open>A Python dictionary keeps the position of a key that is assigned again.\<close>

fun dict_set :: "'k \<Rightarrow> 'v \<Rightarrow> ('k \<times> 'v) list \<Rightarrow> ('k \<times> 'v) list" where
  "dict_set k v [] = [(k, v)]"
| "dict_set k v (kv # d) = (if fst kv = k then (k, v) # d else kv # dict_set k v d)"

text \<open>\<open>anomaly_df.loc[project_id, ...]\<close> when \<open>project_id in anomaly_df.index\<close>.\<close>

definition anomaly_of :: "'k anomalies option \<Rightarrow> 'k \<Rightarrow> bool \<times> real" where
  "anomaly_of a k =
     (case a of
        None \<Rightarrow> (False, 0)
      | Some an \<Rightarrow>
          (case positions (a_index an) k of
             [] \<Rightarrow> (False, 0)
           | i # _ \<Rightarrow> (is_anomaly an ! i, anomaly_score an ! i)))"

text \<open>
  The loop over \<open>projects_df.iterrows()\<close>. \<open>narrate\<close> is \<open>generate_nlp_insights\<close>, which
  renders numbers into sentences and catches its own exceptions.
\<close>

fun forecast_loop :: "(real \<Rightarrow> 'k project \<Rightarrow> string list) \<Rightarrow> clock \<Rightarrow> 'k session \<Rightarrow> nat
    \<Rightarrow> 'k project list \<Rightarrow> ('k \<times> forecast_entry) list \<Rightarrow> ('k \<times> forecast_entry) list" where
  "forecast_loop narrate clk st i [] forecasts = forecasts"
| "forecast_loop narrate clk st i (p # ps) forecasts =
     (let f = forecast_project_completion (session_thresholds st) (at_project clk i) p;
          a = anomaly_of (session_anomalies st) (project_id p);
          entry = forecast.extend f
                    (forecast_entry.fields (narrate (at_project clk i) p) (fst a) (snd a))
      in forecast_loop narrate clk st (Suc i) ps (dict_set (project_id p) entry forecasts))"

text \<open>
  The freshness check: the cached dictionary is there and not empty, a timestamp is there,
  and it is less than 3600 seconds old.
\<close>

definition cache_valid :: "real \<Rightarrow> 'k session \<Rightarrow> bool" where
  "cache_valid now st =
     (case project_forecasts st of
        None \<Rightarrow> False
      | Some d \<Rightarrow>
          d \<noteq> [] \<and>
          (case forecast_generated_at st of
             None \<Rightarrow> False
           | Some t \<Rightarrow> (now - t) * 86400 < 3600))"

definition generate_project_forecasts :: "(real \<Rightarrow> 'k project \<Rightarrow> string list) \<Rightarrow> clock \<Rightarrow> 'k session
    \<Rightarrow> ('k \<times> forecast_entry) list \<times> 'k session" where
  "generate_project_forecasts narrate clk st =
     (if \<not> data_loaded st then ([], st)
      else if cache_valid (at_check clk) st
      then ((case project_forecasts st of Some d \<Rightarrow> d | None \<Rightarrow> []), st)
      else (let forecasts = forecast_loop narrate clk st 0 (session_projects st) []
            in (forecasts, st\<lparr>project_forecasts := Some forecasts,
                              forecast_generated_at := Some (at_store clk)\<rparr>)))"

section \<open>The attention filter of utils/data_processor.py (\<open>get_projects_needing_attention\<close>)\<close>









section \<open>The anomaly entry points over a store of frames\<close>

text \<open>
  Whether a function changes the frame it is given depends on which objects it writes to.
  Here the frames live in a store, a function receives the addresses of its arguments and
  returns the store it leaves behind together with the address of its result. \<open>copy()\<close>,
  \<open>fillna\<close> and the frame constructors allocate a new object; a column assignment and
  \<open>.loc[...] = ...\<close> overwrite the object they are applied to. Series and arrays that
  the functions build on the way are new values and are not held in the store.
\<close>

datatype column = NumCol "cell list" | BoolCol "bool list" | TextCol "string option list"

record 'k table =
  t_index :: "'k list"
  t_columns :: "(string \<times> column) list"

datatype 'k obj = Frame "'k frame" | Anomalies "'k anomalies" | Table "'k table"

type_synonym 'k store = "'k obj list"

definition alloc :: "'k store \<Rightarrow> 'k obj \<Rightarrow> 'k store \<times> nat" where
  "alloc h v = (h @ [v], length h)"

definition deref :: "'k store \<Rightarrow> nat \<Rightarrow> 'k obj option" where
  "deref h a = (if a < length h then Some (h ! a) else None)"

definition empty_frame :: "'k obj" where
  "empty_frame = Frame \<lparr>index = [], columns = []\<rparr>"

subsection \<open>\<open>detect_project_anomalies\<close> of app.py\<close>

text \<open>The loop writes both \<open>.loc\<close> assignments of a column into the result frame.\<close>

fun small_sample_loop_store :: "'k store \<Rightarrow> nat \<Rightarrow> 'k list \<Rightarrow> (string \<times> cell list) list
    \<Rightarrow> 'k store \<times> py_error option" where
  "small_sample_loop_store h an midx [] = (h, None)"
| "small_sample_loop_store h an midx (c # cs) =
     (case deref h an of
        Some (Anomalies a) \<Rightarrow>
          (case check_bool_indexer (a_index a) midx (outliers (snd c)) of
             Inl e \<Rightarrow> (h, Some e)
           | Inr msk \<Rightarrow> small_sample_loop_store (h[an := Anomalies (flag_rows msk a)]) an midx cs)
      | _ \<Rightarrow> (h, Some TypeError))"

text \<open>
  \<open>metrics = metrics_df.copy()\<close> and \<open>metrics = metrics.fillna(metrics.mean())\<close> each
  allocate a frame; the result frame is allocated by \<open>pd.DataFrame(index=...)\<close>, and the
  handler allocates the empty frame it returns.
\<close>

definition detect_project_anomalies_store :: "forest \<Rightarrow> 'k store \<Rightarrow> nat \<Rightarrow> nat \<Rightarrow> real
    \<Rightarrow> 'k store \<times> nat" where
  "detect_project_anomalies_store forest h projects_ref metrics_ref contamination =
     (case deref h projects_ref of
        Some (Frame projects_df) \<Rightarrow>
          (case deref h metrics_ref of
             Some (Frame metrics_df) \<Rightarrow>
               if frame_empty projects_df \<or> frame_empty metrics_df then alloc h empty_frame
               else
                 (case alloc h (Frame metrics_df) of
                    (h1, copied) \<Rightarrow>
                      (case alloc h1 (Frame (fillna_mean metrics_df)) of
                         (h2, filled) \<Rightarrow>
                           (let metrics = fillna_mean metrics_df
                            in if length (index metrics) < 10 then
                                 (case alloc h2 (Anomalies (initial_anomalies (index projects_df))) of
                                    (h3, an) \<Rightarrow>
                                      (case small_sample_loop_store h3 an (index metrics) (columns metrics) of
                                         (h4, None) \<Rightarrow> (h4, an)
                                       | (h4, Some e) \<Rightarrow> alloc h4 empty_frame))
                               else
                                 (case forest_anomalies forest contamination (index projects_df) metrics of
                                    Inl e \<Rightarrow> alloc h2 empty_frame
                                  | Inr a \<Rightarrow> alloc h2 (Anomalies a)))))
           | _ \<Rightarrow> alloc h empty_frame)
      | _ \<Rightarrow> alloc h empty_frame)"

subsection \<open>Tables with typed columns\<close>

definition table_empty :: "'k table \<Rightarrow> bool" where
  "table_empty t = (t_index t = [] \<or> t_columns t = [])"

definition is_numeric :: "column \<Rightarrow> bool" where
  "is_numeric c = (case c of NumCol _ \<Rightarrow> True | _ \<Rightarrow> False)"

text \<open>The names of the columns of a numeric dtype, in column order.\<close>

definition numeric_names :: "'k table \<Rightarrow> string list" where
  "numeric_names t = map fst (filter (\<lambda>nc. is_numeric (snd nc)) (t_columns t))"

definition column_cells :: "'k table \<Rightarrow> string \<Rightarrow> cell list" where
  "column_cells t n = (case map_of (t_columns t) n of Some (NumCol c) \<Rightarrow> c | _ \<Rightarrow> [])"

text \<open>\<open>df[names].fillna(df[names].mean())\<close>, as the list of its columns.\<close>

definition filled_columns :: "'k table \<Rightarrow> string list \<Rightarrow> cell list list" where
  "filled_columns t names = map (\<lambda>n. fillna (col_mean (column_cells t n)) (column_cells t n)) names"

text \<open>
  \<open>df[name] = values\<close>: the column is replaced where it stands or appended; values of
  another length than the index raise ValueError.
\<close>

definition column_length :: "column \<Rightarrow> nat" where
  "column_length c = (case c of NumCol xs \<Rightarrow> length xs | BoolCol xs \<Rightarrow> length xs | TextCol xs \<Rightarrow> length xs)"

definition set_column :: "'k store \<Rightarrow> nat \<Rightarrow> string \<Rightarrow> column \<Rightarrow> 'k store \<times> py_error option" where
  "set_column h a name c =
     (case deref h a of
        Some (Table t) \<Rightarrow>
          if column_length c \<noteq> length (t_index t) then (h, Some ValueError)
          else (h[a := Table (t\<lparr>t_columns := dict_set name c (t_columns t)\<rparr>)], None)
      | _ \<Rightarrow> (h, Some TypeError))"

text \<open>scikit-learn, as arguments: \<open>IsolationForest(...).fit_predict\<close> and
  \<open>StandardScaler().fit_transform\<close>, on the columns of the matrix.\<close>

type_synonym fit_predict = "real \<Rightarrow> cell list list \<Rightarrow> py_error + int list"

type_synonym fit_transform = "cell list list \<Rightarrow> py_error + cell list list"

text \<open>The two assignments that end both functions of \<open>utils\<close>.\<close>

definition store_flags :: "'k store \<Rightarrow> nat \<Rightarrow> column \<Rightarrow> column \<Rightarrow> 'k store \<times> (py_error + nat)" where
  "store_flags h result_ref scores flags =
     (case set_column h result_ref ''anomaly_score'' scores of
        (h1, Some e) \<Rightarrow> (h1, Inl e)
      | (h1, None) \<Rightarrow>
          (case set_column h1 result_ref ''is_anomaly'' flags of
             (h2, Some e) \<Rightarrow> (h2, Inl e)
           | (h2, None) \<Rightarrow> (h2, Inr result_ref)))"

subsection \<open>\<open>detect_project_anomalies\<close> of utils/advanced_analytics.py\<close>

definition default_metrics :: "string list" where
  "default_metrics = [''spi'', ''cpi'', ''budget_variance_pct'', ''schedule_variance_days'']"

text \<open>The function has no \<open>try\<close>: an exception of scikit-learn leaves it.\<close>

definition aa_detect_project_anomalies_store :: "fit_predict \<Rightarrow> fit_transform \<Rightarrow> 'k store \<Rightarrow> nat
    \<Rightarrow> string list option \<Rightarrow> real \<Rightarrow> 'k store \<times> (py_error + nat)" where
  "aa_detect_project_anomalies_store predict scale h projects_ref metrics contamination =
     (case deref h projects_ref of
        Some (Table projects_df) \<Rightarrow>
          if table_empty projects_df then (h, Inr projects_ref)
          else
            (let wanted = (case metrics of None \<Rightarrow> default_metrics | Some ms \<Rightarrow> ms);
                 valid_metrics = filter (\<lambda>n. n \<in> set (numeric_names projects_df)) wanted
             in if valid_metrics = [] then (h, Inr projects_ref)
                else
                  (case alloc h (Table projects_df) of
                     (h1, result_ref) \<Rightarrow>
                       (case scale (filled_columns projects_df valid_metrics) of
                          Inl e \<Rightarrow> (h1, Inl e)
                        | Inr scaled \<Rightarrow>
                            (case predict contamination scaled of
                               Inl e \<Rightarrow> (h1, Inl e)
                             | Inr predictions \<Rightarrow>
                                 store_flags h1 result_ref
                                   (NumCol (map (\<lambda>p. Some (of_int p)) predictions))
                                   (BoolCol (map (\<lambda>p. p = - 1) predictions))))))
      | _ \<Rightarrow> (h, Inl TypeError))"

subsection \<open>\<open>detect_anomalies\<close> of utils/predictive_analytics.py\<close>

text \<open>\<open>str.lower\<close> on the letters A to Z, and the test \<open>sub in s\<close>.\<close>

definition char_lower :: "char \<Rightarrow> char" where
  "char_lower c =
     (let n = (of_char c :: nat) in if 65 \<le> n \<and> n \<le> 90 then char_of (n + 32) else c)"

fun contains :: "string \<Rightarrow> string \<Rightarrow> bool" where
  "contains sub [] = (sub = [])"
| "contains sub (c # cs) = (take (length sub) (c # cs) = sub \<or> contains sub cs)"

definition is_feature :: "string \<Rightarrow> bool" where
  "is_feature col =
     (let l = map char_lower col
      in \<not> contains ''id'' l \<and> \<not> contains ''date'' l \<and> \<not> contains ''month'' l)"

text \<open>The mean of the absolute scaled values of a row (\<open>np.mean(np.abs(...), axis=1)\<close>).\<close>

definition row_z_scores :: "nat \<Rightarrow> cell list list \<Rightarrow> cell list" where
  "row_z_scores n scaled =
     map (\<lambda>i. (let row = map (\<lambda>c. if i < length c then c ! i else None) scaled
                in if list_ex (\<lambda>x. x = None) row then None
                   else Some (mean (map abs (valid_values row))))) [0..<n]"

definition detect_anomalies_store :: "fit_predict \<Rightarrow> fit_transform \<Rightarrow> 'k store \<Rightarrow> nat
    \<Rightarrow> string \<Rightarrow> real \<Rightarrow> 'k store \<times> (py_error + nat)" where
  "detect_anomalies_store predict scale h data_ref method contamination =
     (case deref h data_ref of
        Some (Table project_data) \<Rightarrow>
          if table_empty project_data then (h, Inr data_ref)
          else
            (let features = filter is_feature (numeric_names project_data)
             in if features = [] then (h, Inr data_ref)
                else
                  (case alloc h (Table project_data) of
                     (h1, result_ref) \<Rightarrow>
                       (let x = filled_columns project_data features
                        in if method = ''isolation_forest'' then
                             (case predict contamination x of
                                Inl e \<Rightarrow> (h1, Inl e)
                              | Inr predictions \<Rightarrow>
                                  store_flags h1 result_ref
                                    (NumCol (map (\<lambda>p. Some (of_int p)) predictions))
                                    (BoolCol (map (\<lambda>p. p = - 1) predictions)))
                           else if method = ''zscore'' then
                             (case scale x of
                                Inl e \<Rightarrow> (h1, Inl e)
                              | Inr scaled \<Rightarrow>
                                  (let z_scores = row_z_scores (length (t_index project_data)) scaled
                                   in store_flags h1 result_ref (NumCol z_scores)
                                        (BoolCol (map (\<lambda>z. nan_gt z (Some (5 / 2))) z_scores))))
                           else (h1, Inr result_ref))))
      | _ \<Rightarrow> (h, Inl TypeError))"

section \<open>Example inputs\<close>

definition example_project :: "string project" where
  "example_project =
     \<lparr>project_id = ''P001'', status = Val ''On Track'',
      planned_start = Val 0, planned_end = Val 100,
      spi = Val 1, cpi = Val 1, budget = Val 1000, actual_cost = Val 500,
      completion_pct = Val 50, risk_count = Val 2\<rparr>"

definition example_thresholds :: thresholds where
  "example_thresholds = \<lparr>spi_threshold = Some (9 / 10), cpi_threshold = Some (9 / 10)\<rparr>"

definition example_tasks :: tasks_frame where
  "example_tasks =
     \<lparr>tasks = [\<lparr>planned_cost = Some 100, task_actual_cost = Some 100, earned_value = Some 50\<rparr>],
      has_earned_value = True, has_actual_cost = True\<rparr>"

definition stalled_tasks :: tasks_frame where
  "stalled_tasks =
     \<lparr>tasks = [\<lparr>planned_cost = Some 100, task_actual_cost = Some 100, earned_value = Some 0\<rparr>],
      has_earned_value = True, has_actual_cost = True\<rparr>"

definition steady_history :: "nat history_frame" where
  "steady_history =
     \<lparr>h_rows = [\<lparr>month = 2, h_spi = Some 1, h_cpi = Some 1\<rparr>,
                \<lparr>month = 1, h_spi = Some 1, h_cpi = Some 1\<rparr>,
                \<lparr>month = 3, h_spi = Some 1, h_cpi = Some 1\<rparr>],
      has_spi = True, has_cpi = True\<rparr>"

definition declining_history :: "nat history_frame" where
  "declining_history =
     \<lparr>h_rows = [\<lparr>month = 2, h_spi = Some (1 / 2), h_cpi = Some 1\<rparr>,
                \<lparr>month = 1, h_spi = Some 1, h_cpi = Some 1\<rparr>,
                \<lparr>month = 3, h_spi = Some 0, h_cpi = Some 1\<rparr>],
      has_spi = True, has_cpi = True\<rparr>"

text \<open>A history whose SPI declines to zero and whose CPI declines from 1 by a tenth a
  month, with the rows out of month order.\<close>

definition overrun_history :: "nat history_frame" where
  "overrun_history =
     \<lparr>h_rows = [\<lparr>month = 2, h_spi = Some (1 / 2), h_cpi = Some (9 / 10)\<rparr>,
                \<lparr>month = 1, h_spi = Some 1, h_cpi = Some 1\<rparr>,
                \<lparr>month = 3, h_spi = Some 0, h_cpi = Some (8 / 10)\<rparr>],
      has_spi = True, has_cpi = True\<rparr>"

definition example_clock :: clock where
  "example_clock = \<lparr>at_check = 50, at_project = (\<lambda>i. 50), at_store = 50\<rparr>"

definition no_insights :: "real \<Rightarrow> string project \<Rightarrow> string list" where
  "no_insights now p = []"

definition cached_entry :: forecast_entry where
  "cached_entry = forecast.extend initial_forecast (forecast_entry.fields [] False 0)"

text \<open>A session whose data was never loaded, holding forecasts stored a quarter of an hour
  before the check.\<close>

definition unloaded_session :: "string session" where
  "unloaded_session =
     \<lparr>data_loaded = False, project_forecasts = Some [(''P001'', cached_entry)],
      forecast_generated_at = Some (50 - 1 / 96), session_projects = [example_project],
      session_thresholds = example_thresholds, session_anomalies = None\<rparr>"

definition undated_project :: "string project" where
  "undated_project = example_project\<lparr>project_id := ''P002'', planned_start := Null\<rparr>"


text \<open>A loaded session without thresholds and with a project that has no start date.\<close>

definition fresh_session :: "string session" where
  "fresh_session =
     \<lparr>data_loaded = True, project_forecasts = Some [], forecast_generated_at = None,
      session_projects = [example_project, undated_project],
      session_thresholds = \<lparr>spi_threshold = None, cpi_threshold = None\<rparr>,
      session_anomalies = None\<rparr>"







text \<open>A table with a missing SPI, and stand-ins for the two scikit-learn calls.\<close>

definition example_table :: "nat table" where
  "example_table =
     \<lparr>t_index = [0, 1, 2],
      t_columns = [(''project_id'', NumCol [Some 1, Some 2, Some 3]),
                   (''spi'', NumCol [Some 1, None, Some 3]),
                   (''status'', TextCol [Some ''On Track'', None, Some ''Delayed''])]\<rparr>"

definition unit_scale :: fit_transform where
  "unit_scale cols = Inr cols"

definition all_inliers :: fit_predict where
  "all_inliers contamination cols = Inr (case cols of [] \<Rightarrow> [] | col # _ \<Rightarrow> map (\<lambda>_. 1) col)"

section \<open>Verification: the small-sample anomaly fallback\<close>

text \<open>
  A value of a column of at most ten cells is never further than three sample standard
  deviations from the column mean: its squared deviation is one summand of the sum of
  squares, and the sample variance divides that sum by at most nine.
\<close>

lemma sq_dev_le_sum:
  "x \<in> set vs \<Longrightarrow> (x - m)\<^sup>2 \<le> sum_list (map (\<lambda>v. (v - (m::real))\<^sup>2) vs)"
proof (induction vs)
  case Nil
  then show ?case by simp
next
  case (Cons a vs)
  have nonneg: "0 \<le> sum_list (map (\<lambda>v. (v - m)\<^sup>2) vs)"
    by (rule sum_list_nonneg) auto
  from Cons show ?case
  proof (cases "x = a")
    case True
    with nonneg show ?thesis by simp
  next
    case False
    with Cons have "(x - m)\<^sup>2 \<le> sum_list (map (\<lambda>v. (v - m)\<^sup>2) vs)" by simp
    moreover have "0 \<le> (a - m)\<^sup>2" by simp
    ultimately show ?thesis by (simp add: add_increasing)
  qed
qed

lemma dev_le_three_std:
  assumes x: "x \<in> set vs" and n: "length vs \<le> 10" and n2: "2 \<le> length vs"
  shows "\<bar>x - m\<bar> \<le> 3 * sqrt (sum_list (map (\<lambda>v. (v - (m::real))\<^sup>2) vs) / real (length vs - 1))"
proof -
  let ?S = "sum_list (map (\<lambda>v. (v - m)\<^sup>2) vs)"
  have S0: "0 \<le> ?S" by (rule sum_list_nonneg) auto
  have k: "0 < real (length vs - 1)" "real (length vs - 1) \<le> 9" using n n2 by auto
  have "(x - m)\<^sup>2 \<le> ?S" using x by (rule sq_dev_le_sum)
  also have "?S \<le> 9 * (?S / real (length vs - 1))"
  proof -
    have "?S * real (length vs - 1) \<le> ?S * 9"
      using S0 k by (intro mult_left_mono) auto
    then have "?S \<le> (?S * 9) / real (length vs - 1)"
      using k by (simp add: pos_le_divide_eq)
    then show ?thesis by (simp add: mult.commute)
  qed
  finally have "sqrt ((x - m)\<^sup>2) \<le> sqrt (9 * (?S / real (length vs - 1)))"
    by (simp only: real_sqrt_le_iff)
  moreover have "sqrt (9::real) = 3"
    using real_sqrt_abs[of "3::real"] by simp
  ultimately show ?thesis
    by (simp only: real_sqrt_mult real_sqrt_abs)
qed

lemma length_valid_values: "length (valid_values xs) \<le> length xs"
  by (simp add: valid_values_def List.map_filter_def)

lemma Some_in_valid_values: "Some x \<in> set xs \<Longrightarrow> x \<in> set (valid_values xs)"
  by (induction xs) (auto simp: valid_values_def List.map_filter_def)

lemma outliers_none_small:
  assumes "length col \<le> 10"
  shows "outliers col = replicate (length col) False"
proof -
  have "\<not> (nan_gt c (nan_add (col_mean col) (nan_scale 3 (col_std col)))
           \<or> nan_lt c (nan_sub (col_mean col) (nan_scale 3 (col_std col))))"
    if c: "c \<in> set col" for c
  proof (cases c)
    case None
    then show ?thesis by (simp add: nan_gt_def nan_lt_def)
  next
    case (Some x)
    let ?vs = "valid_values col"
    show ?thesis
    proof (cases "length ?vs \<le> 1")
      case True
      then have "col_std col = None" by (simp add: col_std_def)
      then show ?thesis
        by (simp add: nan_gt_def nan_lt_def nan_add_def nan_sub_def nan_scale_def split: option.splits)
    next
      case False
      let ?m = "sum_list ?vs / real (length ?vs)"
      let ?s = "sqrt (sum_list (map (\<lambda>v. (v - ?m)\<^sup>2) ?vs) / real (length ?vs - 1))"
      from False have ne: "?vs \<noteq> []" by auto
      have mean: "col_mean col = Some ?m" using ne by (simp add: col_mean_def Let_def)
      have std: "col_std col = Some ?s" using False by (simp add: col_std_def Let_def)
      have "x \<in> set ?vs" using c Some by (simp add: Some_in_valid_values)
      moreover have "length ?vs \<le> 10" using assms length_valid_values[of col] by simp
      moreover have "2 \<le> length ?vs" using False by simp
      ultimately have "\<bar>x - ?m\<bar> \<le> 3 * ?s" by (rule dev_le_three_std)
      then have "\<not> x > ?m + 3 * ?s" "\<not> x < ?m - 3 * ?s" by linarith+
      then show ?thesis
        unfolding mean std Some by (simp add: nan_gt_def nan_lt_def nan_add_def nan_sub_def nan_scale_def)
    qed
  qed
  then show ?thesis
    unfolding outliers_def Let_def by (intro replicate_eqI) auto
qed

lemma a_index_flag_rows: "a_index (flag_rows msk an) = a_index an"
  by (simp add: flag_rows_def)

lemma length_outliers: "length (outliers col) = length col"
  by (simp add: outliers_def Let_def)

lemma flag_rows_inv:
  assumes len: "length (is_anomaly an) = length (anomaly_score an)"
    and inv: "\<forall>i<length (is_anomaly an).
        (is_anomaly an ! i \<longleftrightarrow> 1 \<le> anomaly_score an ! i) \<and> 0 \<le> anomaly_score an ! i
        \<and> anomaly_score an ! i \<le> real k"
  shows "length (is_anomaly (flag_rows msk an)) = length (anomaly_score (flag_rows msk an)) \<and>
      (\<forall>i<length (is_anomaly (flag_rows msk an)).
        (is_anomaly (flag_rows msk an) ! i \<longleftrightarrow> 1 \<le> anomaly_score (flag_rows msk an) ! i)
        \<and> 0 \<le> anomaly_score (flag_rows msk an) ! i
        \<and> anomaly_score (flag_rows msk an) ! i \<le> real (Suc k))"
proof (intro conjI allI impI)
  show "length (is_anomaly (flag_rows msk an)) = length (anomaly_score (flag_rows msk an))"
    using len by (simp add: flag_rows_def)
next
  fix i assume i: "i < length (is_anomaly (flag_rows msk an))"
  then have im: "i < length msk" and ia: "i < length (is_anomaly an)"
    by (simp_all add: flag_rows_def)
  with len have isc: "i < length (anomaly_score an)" by simp
  from inv ia have h: "is_anomaly an ! i \<longleftrightarrow> 1 \<le> anomaly_score an ! i"
    "0 \<le> anomaly_score an ! i" "anomaly_score an ! i \<le> real k" by auto
  have f: "is_anomaly (flag_rows msk an) ! i = (msk ! i \<or> is_anomaly an ! i)"
    using im ia by (simp add: flag_rows_def)
  have s: "anomaly_score (flag_rows msk an) ! i
      = (if msk ! i then anomaly_score an ! i + 1 else anomaly_score an ! i)"
    using im isc by (simp add: flag_rows_def)
  show "is_anomaly (flag_rows msk an) ! i \<longleftrightarrow> 1 \<le> anomaly_score (flag_rows msk an) ! i"
    unfolding f s using h by auto
  show "0 \<le> anomaly_score (flag_rows msk an) ! i"
    unfolding s using h by auto
  show "anomaly_score (flag_rows msk an) ! i \<le> real (Suc k)"
    unfolding s using h by auto
qed

lemma small_sample_loop_inv:
  assumes "small_sample_loop midx cs an = Inr an'"
    and "length (is_anomaly an) = length (anomaly_score an)"
    and "\<forall>i<length (is_anomaly an).
        (is_anomaly an ! i \<longleftrightarrow> 1 \<le> anomaly_score an ! i) \<and> 0 \<le> anomaly_score an ! i
        \<and> anomaly_score an ! i \<le> real k"
  shows "length (is_anomaly an') = length (anomaly_score an') \<and>
      (\<forall>i<length (is_anomaly an').
        (is_anomaly an' ! i \<longleftrightarrow> 1 \<le> anomaly_score an' ! i) \<and> 0 \<le> anomaly_score an' ! i
        \<and> anomaly_score an' ! i \<le> real (k + length cs))"
  using assms
proof (induction cs arbitrary: an k)
  case Nil
  then show ?case by simp
next
  case (Cons c cs)
  from Cons.prems(1) obtain msk where
    m: "check_bool_indexer (a_index an) midx (outliers (snd c)) = Inr msk"
    and rest: "small_sample_loop midx cs (flag_rows msk an) = Inr an'"
    by (auto split: sum.splits)
  from flag_rows_inv[OF Cons.prems(2) Cons.prems(3), of msk]
  have l: "length (is_anomaly (flag_rows msk an)) = length (anomaly_score (flag_rows msk an))"
    and i: "\<forall>i<length (is_anomaly (flag_rows msk an)).
        (is_anomaly (flag_rows msk an) ! i \<longleftrightarrow> 1 \<le> anomaly_score (flag_rows msk an) ! i)
        \<and> 0 \<le> anomaly_score (flag_rows msk an) ! i
        \<and> anomaly_score (flag_rows msk an) ! i \<le> real (Suc k)"
    by blast+
  from Cons.IH[OF rest l i] show ?case by simp
qed

lemma small_sample_loop_aligned:
  assumes "a_index an = midx"
    and "\<forall>c\<in>set cs. length (snd c) = length midx"
    and "length (is_anomaly an) = length midx"
    and "length (anomaly_score an) = length midx"
  shows "small_sample_loop midx cs an =
     Inr (an\<lparr>is_anomaly := map (\<lambda>i. is_anomaly an ! i \<or> (\<exists>c\<in>set cs. outliers (snd c) ! i)) [0..<length midx],
            anomaly_score := map (\<lambda>i. anomaly_score an ! i
                 + real (length (filter (\<lambda>c. outliers (snd c) ! i) cs))) [0..<length midx]\<rparr>)"
  using assms
proof (induction cs arbitrary: an)
  case Nil
  have "map (\<lambda>i. is_anomaly an ! i) [0..<length midx] = is_anomaly an"
    using Nil.prems(3) by (metis map_nth)
  moreover have "map (\<lambda>i. anomaly_score an ! i) [0..<length midx] = anomaly_score an"
    using Nil.prems(4) by (metis map_nth)
  ultimately show ?case by simp
next
  case (Cons c cs)
  let ?o = "outliers (snd c)"
  let ?an = "flag_rows ?o an"
  have lo: "length ?o = length midx" using Cons.prems(2) by (simp add: length_outliers)
  have chk: "check_bool_indexer (a_index an) midx ?o = Inr ?o"
    using Cons.prems(1) by (simp add: check_bool_indexer_def)
  have a: "a_index ?an = midx" using Cons.prems(1) by (simp add: a_index_flag_rows)
  have li: "length (is_anomaly ?an) = length midx"
    using lo Cons.prems(3) by (simp add: flag_rows_def)
  have ls: "length (anomaly_score ?an) = length midx"
    using lo Cons.prems(4) by (simp add: flag_rows_def)
  have cs: "\<forall>c\<in>set cs. length (snd c) = length midx" using Cons.prems(2) by simp
  have fi: "is_anomaly ?an ! i = (?o ! i \<or> is_anomaly an ! i)" if "i < length midx" for i
    using that lo Cons.prems(3) by (simp add: flag_rows_def)
  have fs: "anomaly_score ?an ! i = (if ?o ! i then anomaly_score an ! i + 1 else anomaly_score an ! i)"
    if "i < length midx" for i
    using that lo Cons.prems(4) by (simp add: flag_rows_def)
  have "small_sample_loop midx (c # cs) an = small_sample_loop midx cs ?an"
    using chk by simp
  also note Cons.IH[OF a cs li ls]
  also have "?an\<lparr>is_anomaly := map (\<lambda>i. is_anomaly ?an ! i \<or> (\<exists>c\<in>set cs. outliers (snd c) ! i)) [0..<length midx],
            anomaly_score := map (\<lambda>i. anomaly_score ?an ! i
                 + real (length (filter (\<lambda>c. outliers (snd c) ! i) cs))) [0..<length midx]\<rparr>
     = an\<lparr>is_anomaly := map (\<lambda>i. is_anomaly an ! i \<or> (\<exists>c\<in>set (c # cs). outliers (snd c) ! i)) [0..<length midx],
            anomaly_score := map (\<lambda>i. anomaly_score an ! i
                 + real (length (filter (\<lambda>c. outliers (snd c) ! i) (c # cs)))) [0..<length midx]\<rparr>"
  proof -
    have e1: "map (\<lambda>i. is_anomaly ?an ! i \<or> (\<exists>c\<in>set cs. outliers (snd c) ! i)) [0..<length midx]
        = map (\<lambda>i. is_anomaly an ! i \<or> (\<exists>c\<in>set (c # cs). outliers (snd c) ! i)) [0..<length midx]"
      by (rule map_cong) (auto simp: fi)
    have e2: "map (\<lambda>i. anomaly_score ?an ! i
                 + real (length (filter (\<lambda>c. outliers (snd c) ! i) cs))) [0..<length midx]
        = map (\<lambda>i. anomaly_score an ! i
                 + real (length (filter (\<lambda>c. outliers (snd c) ! i) (c # cs)))) [0..<length midx]"
      by (rule map_cong) (auto simp: fs)
    show ?thesis unfolding e1 e2 by (simp add: flag_rows_def)
  qed
  finally show ?case .
qed

lemma outliers_nth:
  assumes "i < length col"
  shows "outliers col ! i \<longleftrightarrow>
     (\<exists>x m s. col ! i = Some x \<and> col_mean col = Some m \<and> col_std col = Some s
        \<and> (x > m + 3 * s \<or> x < m - 3 * s))"
  using assms
  by (auto simp: outliers_def Let_def nan_gt_def nan_lt_def nan_add_def nan_sub_def nan_scale_def
      split: option.splits)

lemma columns_fillna_mean_length:
  "wf_frame df \<Longrightarrow> c \<in> set (columns (fillna_mean df)) \<Longrightarrow> length (snd c) = length (index df)"
  by (auto simp: wf_frame_def fillna_mean_def fillna_def list_all_iff)

lemma detect_small_aligned:
  assumes ne: "\<not> frame_empty projects_df" "\<not> frame_empty metrics_df"
    and wf: "wf_frame metrics_df"
    and idx: "index metrics_df = index projects_df"
    and small: "length (index metrics_df) < 10"
  shows "detect_project_anomalies forest projects_df metrics_df contamination =
     Some \<lparr>a_index = index projects_df,
           is_anomaly = map (\<lambda>i. \<exists>c\<in>set (columns (fillna_mean metrics_df)). outliers (snd c) ! i)
              [0..<length (index projects_df)],
           anomaly_score = map (\<lambda>i. real (length (filter (\<lambda>c. outliers (snd c) ! i)
              (columns (fillna_mean metrics_df))))) [0..<length (index projects_df)]\<rparr>"
proof -
  let ?m = "fillna_mean metrics_df"
  let ?an = "initial_anomalies (index projects_df)"
  have i: "index ?m = index projects_df" using idx by (simp add: fillna_mean_def)
  have c: "\<forall>c\<in>set (columns ?m). length (snd c) = length (index projects_df)"
    using columns_fillna_mean_length[OF wf] idx by simp
  have "small_sample_loop (index projects_df) (columns ?m) ?an =
     Inr (?an\<lparr>is_anomaly := map (\<lambda>i. is_anomaly ?an ! i \<or> (\<exists>c\<in>set (columns ?m). outliers (snd c) ! i))
              [0..<length (index projects_df)],
            anomaly_score := map (\<lambda>i. anomaly_score ?an ! i
                 + real (length (filter (\<lambda>c. outliers (snd c) ! i) (columns ?m))))
              [0..<length (index projects_df)]\<rparr>)"
    by (rule small_sample_loop_aligned) (use c in \<open>simp_all add: initial_anomalies_def\<close>)
  moreover have "map (\<lambda>i. is_anomaly ?an ! i \<or> (\<exists>c\<in>set (columns ?m). outliers (snd c) ! i))
              [0..<length (index projects_df)]
       = map (\<lambda>i. \<exists>c\<in>set (columns ?m). outliers (snd c) ! i) [0..<length (index projects_df)]"
    by (rule map_cong) (simp_all add: initial_anomalies_def)
  moreover have "map (\<lambda>i. anomaly_score ?an ! i
                 + real (length (filter (\<lambda>c. outliers (snd c) ! i) (columns ?m))))
              [0..<length (index projects_df)]
       = map (\<lambda>i. real (length (filter (\<lambda>c. outliers (snd c) ! i) (columns ?m))))
              [0..<length (index projects_df)]"
    by (rule map_cong) (simp_all add: initial_anomalies_def)
  ultimately have "small_sample_loop (index projects_df) (columns ?m) ?an =
     Inr \<lparr>a_index = index projects_df,
           is_anomaly = map (\<lambda>i. \<exists>c\<in>set (columns ?m). outliers (snd c) ! i)
              [0..<length (index projects_df)],
           anomaly_score = map (\<lambda>i. real (length (filter (\<lambda>c. outliers (snd c) ! i)
              (columns ?m)))) [0..<length (index projects_df)]\<rparr>"
    by (simp add: initial_anomalies_def)
  then show ?thesis
    using ne small i idx by (simp add: detect_project_anomalies_def detect_body_def Let_def)
qed

lemma small_frame_no_outliers:
  assumes wf: "wf_frame metrics_df" and small: "length (index metrics_df) < 10"
    and c: "c \<in> set (columns (fillna_mean metrics_df))" and i: "i < length (index metrics_df)"
  shows "\<not> outliers (snd c) ! i"
proof -
  have l: "length (snd c) = length (index metrics_df)"
    using columns_fillna_mean_length[OF wf c] .
  then have "outliers (snd c) = replicate (length (snd c)) False"
    using small by (intro outliers_none_small) simp
  then show ?thesis using l i by (metis nth_replicate)
qed

lemma detect_small_unflagged:
  assumes ne: "\<not> frame_empty projects_df" "\<not> frame_empty metrics_df"
    and wf: "wf_frame metrics_df"
    and idx: "index metrics_df = index projects_df"
    and small: "length (index metrics_df) < 10"
  shows "detect_project_anomalies forest projects_df metrics_df contamination =
     Some (initial_anomalies (index projects_df))"
proof -
  let ?n = "length (index projects_df)"
  let ?m = "fillna_mean metrics_df"
  have no: "\<not> outliers (snd c) ! i" if "c \<in> set (columns ?m)" "i < ?n" for c i
    using small_frame_no_outliers[OF wf small that(1)] that(2) idx by simp
  have f: "map (\<lambda>i. \<exists>c\<in>set (columns ?m). outliers (snd c) ! i) [0..<?n] = replicate ?n False"
    by (rule replicate_eqI) (use no in auto)
  have "filter (\<lambda>c. outliers (snd c) ! i) (columns ?m) = []" if "i < ?n" for i
    using no[OF _ that] by (simp add: filter_empty_conv)
  then have s: "map (\<lambda>i. real (length (filter (\<lambda>c. outliers (snd c) ! i) (columns ?m)))) [0..<?n]
       = replicate ?n 0"
    by (intro replicate_eqI) auto
  show ?thesis
    unfolding detect_small_aligned[OF ne wf idx small] f s by (simp add: initial_anomalies_def)
qed

text \<open>
  Claim C1, as the code has it. With fewer than ten rows (both frames non-empty, on the same
  index) the fallback returns one row for every project; a row is flagged exactly when
  some column's boolean Series selects it, its score is the number of such columns, and
  a column selects the cells that lie more than three standard deviations above or below
  the column mean. Mean and standard deviation are those of the whole column, the cell
  itself included, so with fewer than ten rows no cell is ever selected: every row comes
  back with \<open>is_anomaly = False\<close> and \<open>anomaly_score = 0\<close>.
\<close>

theorem small_sample_fallback:
  assumes "\<not> frame_empty projects_df" and "\<not> frame_empty metrics_df"
    and "wf_frame metrics_df"
    and "index metrics_df = index projects_df"
    and "length (index metrics_df) < 10"
  shows "\<exists>an. detect_project_anomalies forest projects_df metrics_df contamination = Some an
     \<and> a_index an = index projects_df
     \<and> is_anomaly an = map (\<lambda>i. \<exists>c\<in>set (columns (fillna_mean metrics_df)). outliers (snd c) ! i)
           [0..<length (index projects_df)]
     \<and> anomaly_score an = map (\<lambda>i. real (length (filter (\<lambda>c. outliers (snd c) ! i)
           (columns (fillna_mean metrics_df))))) [0..<length (index projects_df)]
     \<and> (\<forall>c\<in>set (columns (fillna_mean metrics_df)). \<forall>i<length (index projects_df).
           outliers (snd c) ! i \<longleftrightarrow>
             (\<exists>x m s. snd c ! i = Some x \<and> col_mean (snd c) = Some m \<and> col_std (snd c) = Some s
                \<and> (x > m + 3 * s \<or> x < m - 3 * s)))
     \<and> is_anomaly an = replicate (length (index projects_df)) False
     \<and> anomaly_score an = replicate (length (index projects_df)) 0"
proof -
  let ?an = "initial_anomalies (index projects_df)"
  have r: "detect_project_anomalies forest projects_df metrics_df contamination = Some ?an"
    using assms by (rule detect_small_unflagged)
  have a: "Some ?an = Some \<lparr>a_index = index projects_df,
           is_anomaly = map (\<lambda>i. \<exists>c\<in>set (columns (fillna_mean metrics_df)). outliers (snd c) ! i)
              [0..<length (index projects_df)],
           anomaly_score = map (\<lambda>i. real (length (filter (\<lambda>c. outliers (snd c) ! i)
              (columns (fillna_mean metrics_df))))) [0..<length (index projects_df)]\<rparr>"
    unfolding r[symmetric] using assms by (rule detect_small_aligned)
  have o: "outliers (snd c) ! i \<longleftrightarrow>
             (\<exists>x m s. snd c ! i = Some x \<and> col_mean (snd c) = Some m \<and> col_std (snd c) = Some s
                \<and> (x > m + 3 * s \<or> x < m - 3 * s))"
    if "c \<in> set (columns (fillna_mean metrics_df))" "i < length (index projects_df)" for c i
  proof (rule outliers_nth)
    show "i < length (snd c)"
      using columns_fillna_mean_length[OF assms(3) that(1)] that(2) assms(4) by simp
  qed
  from a have a1: "is_anomaly ?an = map (\<lambda>i. \<exists>c\<in>set (columns (fillna_mean metrics_df)). outliers (snd c) ! i)
              [0..<length (index projects_df)]"
    and a2: "anomaly_score ?an = map (\<lambda>i. real (length (filter (\<lambda>c. outliers (snd c) ! i)
              (columns (fillna_mean metrics_df))))) [0..<length (index projects_df)]"
    by simp_all
  show ?thesis
  proof (intro exI[of _ ?an] conjI ballI allI impI)
    show "detect_project_anomalies forest projects_df metrics_df contamination = Some ?an" by (rule r)
    show "a_index ?an = index projects_df" by (simp add: initial_anomalies_def)
    show "is_anomaly ?an = map (\<lambda>i. \<exists>c\<in>set (columns (fillna_mean metrics_df)). outliers (snd c) ! i)
              [0..<length (index projects_df)]" by (rule a1)
    show "anomaly_score ?an = map (\<lambda>i. real (length (filter (\<lambda>c. outliers (snd c) ! i)
              (columns (fillna_mean metrics_df))))) [0..<length (index projects_df)]" by (rule a2)
    show "is_anomaly ?an = replicate (length (index projects_df)) False"
      by (simp add: initial_anomalies_def)
    show "anomaly_score ?an = replicate (length (index projects_df)) 0"
      by (simp add: initial_anomalies_def)
  next
    fix c i
    assume "c \<in> set (columns (fillna_mean metrics_df))" "i < length (index projects_df)"
    then show "outliers (snd c) ! i \<longleftrightarrow>
             (\<exists>x m s. snd c ! i = Some x \<and> col_mean (snd c) = Some m \<and> col_std (snd c) = Some s
                \<and> (x > m + 3 * s \<or> x < m - 3 * s))"
      by (rule o)
  qed
qed

text \<open>The theorem at nine projects, one of them with an SPI of 1000.\<close>

theorem small_sample_fallback_witness:
  "detect_project_anomalies no_forest example_projects example_metrics (1 / 10) =
     Some \<lparr>a_index = [0, 1, 2, 3, 4, 5, 6, 7, 8],
           is_anomaly = [False, False, False, False, False, False, False, False, False],
           anomaly_score = [0, 0, 0, 0, 0, 0, 0, 0, 0]\<rparr>"
proof -
  have h: "\<not> frame_empty example_projects" "\<not> frame_empty example_metrics"
    "wf_frame example_metrics" "index example_metrics = index example_projects"
    "length (index example_metrics) < 10"
    by (simp_all add: frame_empty_def wf_frame_def example_projects_def example_metrics_def)
  from small_sample_fallback[OF h, of no_forest "1 / 10"]
  obtain an where "detect_project_anomalies no_forest example_projects example_metrics (1 / 10) = Some an"
    "a_index an = index example_projects"
    "is_anomaly an = replicate (length (index example_projects)) False"
    "anomaly_score an = replicate (length (index example_projects)) 0"
    by blast
  then show ?thesis
    by (cases an) (simp add: example_projects_def numeral_eq_Suc)
qed

text \<open>
  Claim C1 as stated fails: the ninth project's SPI of 1000 is more than three standard
  deviations from the other eight (mean 4.5, standard deviation \<open>sqrt 6\<close>), and its row
  is returned with \<open>is_anomaly = False\<close>.
\<close>

theorem outlier_among_nine_not_flagged:
  "nan_gt (Some 1000) (nan_add (col_mean (map Some [1, 2, 3, 4, 5, 6, 7, 8]))
       (nan_scale 3 (col_std (map Some [1, 2, 3, 4, 5, 6, 7, 8]))))
   \<and> detect_project_anomalies no_forest example_projects example_metrics (1 / 10) =
     Some \<lparr>a_index = [0, 1, 2, 3, 4, 5, 6, 7, 8],
           is_anomaly = [False, False, False, False, False, False, False, False, False],
           anomaly_score = [0, 0, 0, 0, 0, 0, 0, 0, 0]\<rparr>"
proof
  have v: "valid_values (map Some [1, 2, 3, 4, 5, 6, 7, 8]) = [1, 2, 3, 4, 5, 6, 7, 8::real]"
    by (simp add: valid_values_def List.map_filter_def)
  have m: "col_mean (map Some [1, 2, 3, 4, 5, 6, 7, 8]) = Some (9 / 2)"
    unfolding col_mean_def v by simp
  have s: "col_std (map Some [1, 2, 3, 4, 5, 6, 7, 8]) = Some (sqrt 6)"
    unfolding col_std_def v by (simp add: power2_eq_square)
  have "sqrt 6 < 3" by (rule real_less_lsqrt) simp_all
  then show "nan_gt (Some 1000) (nan_add (col_mean (map Some [1, 2, 3, 4, 5, 6, 7, 8]))
       (nan_scale 3 (col_std (map Some [1, 2, 3, 4, 5, 6, 7, 8]))))"
    unfolding m s by (simp add: nan_gt_def nan_add_def nan_scale_def)
next
  have h: "\<not> frame_empty example_projects" "\<not> frame_empty example_metrics"
    "wf_frame example_metrics" "index example_metrics = index example_projects"
    "length (index example_metrics) < 10"
    by (simp_all add: frame_empty_def wf_frame_def example_projects_def example_metrics_def)
  show "detect_project_anomalies no_forest example_projects example_metrics (1 / 10) =
     Some \<lparr>a_index = [0, 1, 2, 3, 4, 5, 6, 7, 8],
           is_anomaly = [False, False, False, False, False, False, False, False, False],
           anomaly_score = [0, 0, 0, 0, 0, 0, 0, 0, 0]\<rparr>"
    unfolding detect_small_unflagged[OF h]
    by (simp add: initial_anomalies_def example_projects_def numeral_eq_Suc)
qed

text \<open>
  Claim C10. Whatever the small-sample fallback returns, a row is flagged exactly when its
  score is at least one, and no score exceeds the number of metric columns. The loop
  keeps this for any boolean Series, aligned or reindexed.
\<close>

theorem small_sample_flag_score_consistent:
  assumes r: "detect_project_anomalies forest projects_df metrics_df contamination = Some an"
    and small: "length (index metrics_df) < 10"
  shows "length (is_anomaly an) = length (anomaly_score an) \<and>
     (\<forall>i<length (is_anomaly an).
        (is_anomaly an ! i \<longleftrightarrow> 1 \<le> anomaly_score an ! i)
        \<and> anomaly_score an ! i \<le> real (length (columns metrics_df)))"
proof -
  let ?m = "fillna_mean metrics_df"
  let ?a0 = "initial_anomalies (index projects_df)"
  from r small have loop: "small_sample_loop (index ?m) (columns ?m) ?a0 = Inr an"
    by (auto simp: detect_project_anomalies_def detect_body_def Let_def fillna_mean_def
        split: if_splits sum.splits)
  have l0: "length (is_anomaly ?a0) = length (anomaly_score ?a0)"
    by (simp add: initial_anomalies_def)
  have i0: "\<forall>i<length (is_anomaly ?a0).
        (is_anomaly ?a0 ! i \<longleftrightarrow> 1 \<le> anomaly_score ?a0 ! i) \<and> 0 \<le> anomaly_score ?a0 ! i
        \<and> anomaly_score ?a0 ! i \<le> real 0"
    by (simp add: initial_anomalies_def)
  have n: "length (columns ?m) = length (columns metrics_df)"
    by (simp add: fillna_mean_def)
  from small_sample_loop_inv[OF loop l0 i0] show ?thesis
    unfolding n by simp
qed

text \<open>The theorem at three projects and two metric columns, one cell missing.\<close>

theorem small_sample_flag_score_consistent_witness:
  "detect_project_anomalies no_forest small_projects small_metrics (1 / 10) =
      Some \<lparr>a_index = [''P001'', ''P002'', ''P003''], is_anomaly = [False, False, False],
            anomaly_score = [0, 0, 0]\<rparr>
   \<and> length (index small_metrics) < 10
   \<and> length [False, False, False] = length [0, 0, 0 :: real]
   \<and> ([False, False, False] ! 2 \<longleftrightarrow> 1 \<le> [0, 0, 0 :: real] ! 2)
   \<and> [0, 0, 0 :: real] ! 2 \<le> real (length (columns small_metrics))"
proof -
  have h: "\<not> frame_empty small_projects" "\<not> frame_empty small_metrics"
    "wf_frame small_metrics" "index small_metrics = index small_projects"
    "length (index small_metrics) < 10"
    by (simp_all add: frame_empty_def wf_frame_def small_projects_def small_metrics_def)
  have r: "detect_project_anomalies no_forest small_projects small_metrics (1 / 10) =
      Some \<lparr>a_index = [''P001'', ''P002'', ''P003''], is_anomaly = [False, False, False],
            anomaly_score = [0, 0, 0]\<rparr>"
    unfolding detect_small_unflagged[OF h]
    by (simp add: initial_anomalies_def small_projects_def numeral_eq_Suc)
  from small_sample_flag_score_consistent[OF r h(5)] r h(5) show ?thesis
    by (simp add: small_metrics_def)
qed

section \<open>Verification: the cost forecasts\<close>

lemma cost_stage_known:
  assumes "budget p = Val b" "cpi p = Val c" "c > 0" "actual_cost p = Val a"
  shows "forecast_final_cost (cost_stage p f) = Some (a + (b - a) / c)"
  using assms by (simp add: cost_stage_def Let_def)

lemma risk_stage_keeps_cost:
  "risk_stage th p f = Inr f' \<Longrightarrow> forecast_final_cost f' = forecast_final_cost f"
  by (auto simp: risk_stage_def split: sum.splits)

lemma forecast_final_cost_is_cost_stage:
  "forecast_final_cost (forecast_project_completion th now p)
     = forecast_final_cost (cost_stage p (schedule_stage now p initial_forecast))"
  by (auto simp: forecast_project_completion_def Let_def risk_stage_keeps_cost split: sum.splits)

lemma aa_with_indices:
  assumes "tasks tf \<noteq> []" "read_dates p = Inr (ps, pe)" "budget p = Val b"
    and "aa_indices tf = (s, c, ev, ac)"
  shows "\<exists>r. aa_forecast_project_completion now (Some p) tf = Inr r
     \<and> aa_forecast_final_cost r = Some (Some (if c > 0 then ac + (b - ev) / c else 3 / 2 * b))"
  using assms
  by (simp add: aa_forecast_project_completion_def Let_def getitem_def nan_add_def nan_sub_def
      nan_div_def nan_scale_def)

lemma evm_cost_known:
  assumes "budget p = Val b" "cpi p = Val c" "c > 0" "actual_cost p = Val a"
  shows "evm_cost p s = Inr (Some (a + (b - b * s) / c))"
  using assms
  by (simp add: evm_cost_def present_def cell_of_def Let_def nan_add_def nan_sub_def nan_div_def
      nan_scale_def mult.commute)

text \<open>
  Claim C3, as the code has it. The forecaster of app.py, for a project with a budget, a
  CPI above zero and a known actual cost, returns
  \<open>actual_cost + (budget - actual_cost) / cpi\<close>, which is the budget when the CPI is 1.
  The forecaster of utils/advanced_analytics.py takes its CPI and costs from the task
  sums and returns \<open>total_actual_cost + (budget - total_earned_value) / cpi\<close>.
\<close>

theorem eac_formula:
  assumes "budget p = Val b" and "cpi p = Val c" and "c > 0" and "actual_cost p = Val a"
    and "tasks tf \<noteq> []" and "read_dates p = Inr (ps, pe)"
    and "aa_indices tf = (s', c', ev, ac)" and "c' > 0"
  shows "forecast_final_cost (forecast_project_completion th now p) = Some (a + (b - a) / c)
     \<and> (c = 1 \<longrightarrow> forecast_final_cost (forecast_project_completion th now p) = Some b)
     \<and> (\<exists>r. aa_forecast_project_completion now (Some p) tf = Inr r
            \<and> aa_forecast_final_cost r = Some (Some (ac + (b - ev) / c')))"
proof -
  have app: "forecast_final_cost (forecast_project_completion th now p) = Some (a + (b - a) / c)"
    unfolding forecast_final_cost_is_cost_stage using assms(1-4) by (rule cost_stage_known)
  from aa_with_indices[OF assms(5) assms(6) assms(1) assms(7), of now] assms(8)
  obtain r where r: "aa_forecast_project_completion now (Some p) tf = Inr r"
    "aa_forecast_final_cost r = Some (Some (ac + (b - ev) / c'))"
    by auto
  from app r show ?thesis by auto
qed

text \<open>
  The theorem at a project with budget 1000, actual cost 500 and CPI 1, and one task with
  planned cost 100, actual cost 100 and earned value 50.
\<close>

theorem eac_formula_witness:
  "forecast_final_cost (forecast_project_completion example_thresholds 50 example_project) = Some 1000
   \<and> (\<exists>r. aa_forecast_project_completion 50 (Some example_project) example_tasks = Inr r
          \<and> aa_forecast_final_cost r = Some (Some 2000))"
proof -
  have h: "budget example_project = Val 1000" "cpi example_project = Val 1" "(1::real) > 0"
    "actual_cost example_project = Val 500" "tasks example_tasks \<noteq> []"
    "read_dates example_project = Inr (0, 100)"
    "aa_indices example_tasks = (1 / 2, 1 / 2, 50, 100)" "(1 / 2 :: real) > 0"
    by (simp_all add: example_project_def example_tasks_def read_dates_def aa_indices_def
        col_sum_def valid_values_def List.map_filter_def)
  from eac_formula[OF h, of example_thresholds 50] show ?thesis by simp
qed

text \<open>
  Claim C3 as stated fails for the forecaster of utils/advanced_analytics.py: with actual
  cost 100, CPI 1/2 and budget 1000 it returns 2000, and the claimed formula gives 1900.
\<close>

theorem eac_of_task_sums_differs:
  "\<exists>r. aa_forecast_project_completion 50 (Some example_project) example_tasks = Inr r
      \<and> aa_forecast_final_cost r = Some (Some 2000)
      \<and> aa_indices example_tasks = (1 / 2, 1 / 2, 50, 100)
      \<and> (2000 :: real) \<noteq> 100 + (1000 - 100) / (1 / 2)"
proof -
  have i: "aa_indices example_tasks = (1 / 2, 1 / 2, 50, 100)"
    by (simp add: example_tasks_def aa_indices_def col_sum_def valid_values_def List.map_filter_def)
  have h: "tasks example_tasks \<noteq> []" "read_dates example_project = Inr (0, 100)"
    "budget example_project = Val 1000"
    by (simp_all add: example_project_def example_tasks_def read_dates_def)
  from aa_with_indices[OF h i, of 50] i show ?thesis by auto
qed

lemma cost_stage_skipped:
  assumes "cpi p = Val c" "\<not> c > 0"
  shows "forecast_final_cost (cost_stage p f) = forecast_final_cost f"
  using assms by (simp add: cost_stage_def split: field.splits)

lemma schedule_stage_keeps_cost:
  "forecast_final_cost (schedule_stage now p f) = forecast_final_cost f"
  by (simp add: schedule_stage_def Let_def split: field.splits)

lemma read_dates_Inr:
  "read_dates p = Inr (ps, pe) \<longleftrightarrow> planned_start p = Val ps \<and> planned_end p = Val pe"
  by (auto simp: read_dates_def split: field.splits)

lemma pa_with_indices:
  assumes "read_dates p = Inr (ps, pe)" "budget p = Val b"
    and "pa_indices tf (Some \<lfloor>pe - ps\<rfloor>) (Some \<lfloor>now - ps\<rfloor>) = Inr (g, s, c)"
  shows "\<exists>r. predict_project_completion now p tf = Inr r
     \<and> pa_forecast_cost r = Some (if c > 0 then min 1 g * b + (b - min 1 g * b) / c else 2 * b)"
proof -
  from assms(1) have d: "planned_start p = Val ps" "planned_end p = Val pe"
    by (simp_all add: read_dates_Inr)
  show ?thesis
    using d assms(2,3)
    by (simp add: predict_project_completion_def Let_def getitem_def nan_add_def nan_sub_def
        nan_div_def nan_scale_def)
qed

lemma evm_cost_fallback:
  assumes "budget p = Val b" "cpi p = Val c" "\<not> c > 0"
  shows "evm_cost p s = Inr (Some (11 / 10 * b))"
  using assms by (simp add: evm_cost_def present_def getitem_def nan_scale_def)

text \<open>
  Claim C5, as the code has it. No forecaster divides by a CPI that is not above zero, and
  each has its own fallback: utils/advanced_analytics.py returns \<open>budget * 1.5\<close>,
  utils/predictive_analytics.py returns \<open>budget * 2\<close>, and app.py skips the cost
  block, so that \<open>forecast_final_cost\<close> stays \<open>None\<close>.
\<close>

theorem cpi_fallbacks:
  assumes "budget p = Val b" and "read_dates p = Inr (ps, pe)" and "tasks tf \<noteq> []"
    and "aa_indices tf = (s, c, ev, ac)" and "\<not> c > 0"
    and "pa_indices tf (Some \<lfloor>pe - ps\<rfloor>) (Some \<lfloor>now - ps\<rfloor>) = Inr (g, s', c')" and "\<not> c' > 0"
    and "cpi q = Val k" and "\<not> k > 0"
  shows "(\<exists>r. aa_forecast_project_completion now (Some p) tf = Inr r
            \<and> aa_forecast_final_cost r = Some (Some (3 / 2 * b)))
     \<and> (\<exists>r. predict_project_completion now p tf = Inr r \<and> pa_forecast_cost r = Some (2 * b))
     \<and> forecast_final_cost (forecast_project_completion th now q) = None"
proof (intro conjI)
  show "\<exists>r. aa_forecast_project_completion now (Some p) tf = Inr r
            \<and> aa_forecast_final_cost r = Some (Some (3 / 2 * b))"
    using aa_with_indices[OF assms(3) assms(2) assms(1) assms(4), of now] assms(5) by simp
  show "\<exists>r. predict_project_completion now p tf = Inr r \<and> pa_forecast_cost r = Some (2 * b)"
    using pa_with_indices[OF assms(2) assms(1) assms(6)] assms(7) by simp
  show "forecast_final_cost (forecast_project_completion th now q) = None"
    unfolding forecast_final_cost_is_cost_stage cost_stage_skipped[OF assms(8) assms(9)]
      schedule_stage_keeps_cost
    by (simp add: initial_forecast_def)
qed

text \<open>
  The theorem at one task with earned value 0 (a computed CPI of 0), and at a project whose
  own CPI is 0.
\<close>

theorem cpi_fallbacks_witness:
  "(\<exists>r. aa_forecast_project_completion 50 (Some example_project) stalled_tasks = Inr r
            \<and> aa_forecast_final_cost r = Some (Some 1500))
     \<and> (\<exists>r. predict_project_completion 50 example_project stalled_tasks = Inr r
            \<and> pa_forecast_cost r = Some 2000)
     \<and> forecast_final_cost (forecast_project_completion example_thresholds 50
           (example_project\<lparr>cpi := Val 0\<rparr>)) = None"
proof -
  have h: "budget example_project = Val 1000" "read_dates example_project = Inr (0, 100)"
    "tasks stalled_tasks \<noteq> []" "aa_indices stalled_tasks = (0, 0, 0, 100)" "\<not> (0::real) > 0"
    "pa_indices stalled_tasks (Some \<lfloor>100 - 0 :: real\<rfloor>) (Some \<lfloor>50 - 0 :: real\<rfloor>) = Inr (0, 0, 0)" "\<not> (0::real) > 0"
    "cpi (example_project\<lparr>cpi := Val 0\<rparr>) = Val 0" "\<not> (0::real) > 0"
    by (simp_all add: example_project_def stalled_tasks_def read_dates_def aa_indices_def
        pa_indices_def col_sum_def valid_values_def List.map_filter_def)
  from cpi_fallbacks[OF h, of example_thresholds] show ?thesis by simp
qed

text \<open>
  Claim C5 as stated fails for app.py and for utils/predictive_analytics.py: with budget
  1000 and a CPI of 0 the first returns no final cost, the second 2000, and neither
  returns \<open>budget * 1.5 = 1500\<close>.
\<close>

theorem zero_cpi_leaves_cost_unset:
  "forecast_final_cost (forecast_project_completion example_thresholds 50
       (example_project\<lparr>cpi := Val 0\<rparr>)) = None
   \<and> budget (example_project\<lparr>cpi := Val 0\<rparr>) = Val 1000
   \<and> (\<exists>r. predict_project_completion 50 example_project stalled_tasks = Inr r
          \<and> pa_forecast_cost r = Some 2000 \<and> (2000 :: real) \<noteq> 1000 * (3 / 2))"
proof -
  have c: "cpi (example_project\<lparr>cpi := Val 0\<rparr>) = Val 0" "\<not> (0::real) > 0" by simp_all
  have 1: "forecast_final_cost (forecast_project_completion example_thresholds 50
       (example_project\<lparr>cpi := Val 0\<rparr>)) = None"
    unfolding forecast_final_cost_is_cost_stage cost_stage_skipped[OF c] schedule_stage_keeps_cost
    by (simp add: initial_forecast_def)
  have h: "read_dates example_project = Inr (0, 100)" "budget example_project = Val 1000"
    "pa_indices stalled_tasks (Some \<lfloor>100 - 0 :: real\<rfloor>) (Some \<lfloor>50 - 0 :: real\<rfloor>) = Inr (0, 0, 0)"
    by (simp_all add: example_project_def stalled_tasks_def read_dates_def
        pa_indices_def col_sum_def valid_values_def List.map_filter_def)
  from pa_with_indices[OF h] 1 show ?thesis by (simp add: example_project_def)
qed

section \<open>Verification: the ensemble forecast\<close>

lemma confidence_combine:
  "confidence (combine ps pe evm d c ms) = None \<or> confidence (combine ps pe evm d c ms) = Some (6 / 10)"
  by (simp add: combine_def initial_results_def Let_def split: option.splits sum.splits)


lemma confidence_generate:
  "confidence (generate_ensemble_forecast srt H now p hist) = None
   \<or> confidence (generate_ensemble_forecast srt H now p hist) = Some (6 / 10)"
  using confidence_combine
  by (auto simp: generate_ensemble_forecast_def initial_results_def
      split: field.splits prod.splits sum.splits)

lemma combine_without_trend_date:
  assumes "combine_cost mc (evm_final_cost evm) = Inr (Some c)"
  shows "combine ps pe evm None mc ms =
     \<lparr>completion_date = Some (evm_completion_date evm),
      completion_date_best = Some (evm_completion_date evm - of_int \<lfloor>pe - ps\<rfloor> * (15 / 100) / 2),
      completion_date_worst = Some (evm_completion_date evm + of_int \<lfloor>pe - ps\<rfloor> * (15 / 100)),
      final_cost = Some c,
      final_cost_best = Some (nan_scale (95 / 100) c),
      final_cost_worst = Some (nan_scale (12 / 10) c),
      confidence = Some (6 / 10), forecast_models = ms\<rparr>"
  using assms by (simp add: combine_def initial_results_def Let_def)

lemma generate_with_dates:
  assumes "planned_start p = Val ps" "planned_end p = Val pe"
    and "evm_part now p ps pe = (ms, Inr evm)"
    and "ml_part srt H p ps (durations evm) hist ms = (d, mc, ms')"
  shows "generate_ensemble_forecast srt H now p hist = combine ps pe evm d mc ms'"
  using assms by (simp add: generate_ensemble_forecast_def)








subsection \<open>The fitted line minimises the squared residuals\<close>









subsection \<open>The forecast of the trend and the blend\<close>




text \<open>
  Claim C2, as the code has it. The confidence is a fraction, not a percentage: whatever
  the input, the returned confidence is unset (\<open>None\<close>) or one of the two fractions 0.6
  and 0.8, never 60 or 80. When both planned dates are known, the EVM block succeeds, no
  trend date exists and a final cost can be formed, the completion date is the EVM date,
  the confidence is 0.6, and the final cost is \<open>0.75 * trend_cost + 0.25 * evm_cost\<close>
  when a trend cost exists and the EVM cost otherwise.
\<close>

theorem ensemble_blend:
  "(confidence (generate_ensemble_forecast srt H now p hist) = None
      \<or> confidence (generate_ensemble_forecast srt H now p hist) = Some (6 / 10)
      \<or> confidence (generate_ensemble_forecast srt H now p hist) = Some (8 / 10))
   \<and> (\<forall>ps pe ms evm mc ms' c.
         planned_start p = Val ps \<and> planned_end p = Val pe
         \<and> evm_part now p ps pe = (ms, Inr evm)
         \<and> ml_part srt H p ps (durations evm) hist ms = (None, mc, ms')
         \<and> combine_cost mc (evm_final_cost evm) = Inr (Some c)
       \<longrightarrow> completion_date (generate_ensemble_forecast srt H now p hist) = Some (evm_completion_date evm)
         \<and> confidence (generate_ensemble_forecast srt H now p hist) = Some (6 / 10)
         \<and> final_cost (generate_ensemble_forecast srt H now p hist) = Some c
         \<and> (\<forall>m e. mc = Some m \<and> evm_final_cost evm = Some e
               \<longrightarrow> c = nan_add (nan_scale (3 / 4) m) (nan_scale (1 / 4) e))
         \<and> (mc = None \<longrightarrow> evm_final_cost evm = Some c))"
proof (intro conjI allI impI)
  show "confidence (generate_ensemble_forecast srt H now p hist) = None
      \<or> confidence (generate_ensemble_forecast srt H now p hist) = Some (6 / 10)
      \<or> confidence (generate_ensemble_forecast srt H now p hist) = Some (8 / 10)"
    using confidence_generate[of srt H now p hist] by blast
next
  fix ps pe ms evm mc ms' c
  assume h: "planned_start p = Val ps \<and> planned_end p = Val pe
         \<and> evm_part now p ps pe = (ms, Inr evm)
         \<and> ml_part srt H p ps (durations evm) hist ms = (None, mc, ms')
         \<and> combine_cost mc (evm_final_cost evm) = Inr (Some c)"
  then have g: "generate_ensemble_forecast srt H now p hist = combine ps pe evm None mc ms'"
    by (intro generate_with_dates) auto
  from h have c: "combine_cost mc (evm_final_cost evm) = Inr (Some c)" by simp
  show "completion_date (generate_ensemble_forecast srt H now p hist) = Some (evm_completion_date evm)"
    unfolding g combine_without_trend_date[OF c] by simp
  show "confidence (generate_ensemble_forecast srt H now p hist) = Some (6 / 10)"
    unfolding g combine_without_trend_date[OF c] by simp
  show "final_cost (generate_ensemble_forecast srt H now p hist) = Some c"
    unfolding g combine_without_trend_date[OF c] by simp
  show "mc = None \<Longrightarrow> evm_final_cost evm = Some c"
    using c by (simp add: combine_cost_def)
  show "c = nan_add (nan_scale (3 / 4) m) (nan_scale (1 / 4) e)"
    if "mc = Some m \<and> evm_final_cost evm = Some e" for m e
    using c that by (simp add: combine_cost_def)
qed

lemma example_evm:
  "evm_part 50 example_project 0 100 =
     ([''EVM''], Inr \<lparr>evm_completion_date = 100, evm_final_cost = Some (Some 500),
                       durations = Some (100, 50)\<rparr>)"
  by code_simp



lemma steady_ml:
  "ml_part sort_key 3 example_project 0 (Some (100, 50)) (Some steady_history) [''EVM'']
     = (Some 100, Some (Some 1000), [''EVM'', ''Linear Regression''])"
  by code_simp

lemma declining_ml:
  "ml_part sort_key 3 example_project 0 (Some (100, 50)) (Some declining_history) [''EVM'']
     = (None, Some (Some 1000), [''EVM''])"
  by code_simp

lemma no_history_ml:
  "ml_part sort_key 3 example_project 0 (Some (100, 50)) (None :: nat history_frame option) [''EVM'']
     = (None, None, [''EVM''])"
  by code_simp

text \<open>
  The theorem at a project on plan (budget 1000, actual cost 500) whose SPI history
  declines to zero while its CPI stays at 1: no trend date, a trend cost of 1000, an EVM
  cost of 500 and a final cost of 875.
\<close>

theorem ensemble_blend_witness:
  "completion_date (generate_ensemble_forecast sort_key 3 50 example_project (Some declining_history))
      = Some 100
   \<and> confidence (generate_ensemble_forecast sort_key 3 50 example_project (Some declining_history))
      = Some (6 / 10)
   \<and> final_cost (generate_ensemble_forecast sort_key 3 50 example_project (Some declining_history))
      = Some (Some 875)
   \<and> Some 875 = nan_add (nan_scale (3 / 4) (Some 1000)) (nan_scale (1 / 4) (Some 500))"
proof -
  let ?evm = "\<lparr>evm_completion_date = 100, evm_final_cost = Some (Some 500),
                durations = Some (100, 50)\<rparr>"
  have h: "planned_start example_project = Val 0 \<and> planned_end example_project = Val 100
     \<and> evm_part 50 example_project 0 100 = ([''EVM''], Inr ?evm)
     \<and> ml_part sort_key 3 example_project 0 (durations ?evm) (Some declining_history) [''EVM'']
          = (None, Some (Some 1000), [''EVM''])
     \<and> combine_cost (Some (Some 1000)) (evm_final_cost ?evm) = Inr (Some (Some 875))"
    using example_evm declining_ml
    by (simp add: example_project_def combine_cost_def nan_add_def nan_scale_def)
  from ensemble_blend[of sort_key 3 50 example_project "Some declining_history"] h
  have "completion_date (generate_ensemble_forecast sort_key 3 50 example_project (Some declining_history))
          = Some (evm_completion_date ?evm)
     \<and> confidence (generate_ensemble_forecast sort_key 3 50 example_project (Some declining_history))
          = Some (6 / 10)
     \<and> final_cost (generate_ensemble_forecast sort_key 3 50 example_project (Some declining_history))
          = Some (Some 875)
     \<and> (\<forall>m e. Some (Some 1000) = Some m \<and> evm_final_cost ?evm = Some e
               \<longrightarrow> Some 875 = nan_add (nan_scale (3 / 4) m) (nan_scale (1 / 4) e))"
    by blast
  then show ?thesis by simp
qed

text \<open>
  Claim C2 as stated fails. Without history the confidence is 0.6, which is neither 60 nor
  80. With a steady history the trend date exists (day 100), the weighted sum of the two
  timestamps raises, and the function returns neither a completion date nor a
  confidence.
\<close>

theorem confidence_is_a_fraction:
  "confidence (generate_ensemble_forecast sort_key 3 50 example_project
       (None :: nat history_frame option)) = Some (6 / 10)
   \<and> Some (6 / 10 :: real) \<noteq> Some 60 \<and> Some (6 / 10 :: real) \<noteq> Some 80
   \<and> ml_part sort_key 3 example_project 0 (Some (100, 50)) (Some steady_history) [''EVM'']
        = (Some 100, Some (Some 1000), [''EVM'', ''Linear Regression''])
   \<and> completion_date (generate_ensemble_forecast sort_key 3 50 example_project (Some steady_history))
        = None
   \<and> confidence (generate_ensemble_forecast sort_key 3 50 example_project (Some steady_history))
        = None"
proof -
  let ?evm = "\<lparr>evm_completion_date = 100, evm_final_cost = Some (Some 500),
                durations = Some (100, 50)\<rparr>"
  have d: "planned_start example_project = Val 0" "planned_end example_project = Val 100"
    by (simp_all add: example_project_def)
  have n: "ml_part sort_key 3 example_project 0 (durations ?evm)
       (None :: nat history_frame option) [''EVM''] = (None, None, [''EVM''])"
    using no_history_ml by simp
  have s: "ml_part sort_key 3 example_project 0 (durations ?evm) (Some steady_history) [''EVM'']
       = (Some 100, Some (Some 1000), [''EVM'', ''Linear Regression''])"
    using steady_ml by simp
  have 1: "generate_ensemble_forecast sort_key 3 50 example_project (None :: nat history_frame option)
      = combine 0 100 ?evm None None [''EVM'']"
    using d example_evm n by (rule generate_with_dates)
  have 2: "generate_ensemble_forecast sort_key 3 50 example_project (Some steady_history)
      = combine 0 100 ?evm (Some 100) (Some (Some 1000)) [''EVM'', ''Linear Regression'']"
    using d example_evm s by (rule generate_with_dates)
  show ?thesis
    unfolding 1 2 using steady_ml
    by (simp add: combine_def combine_cost_def initial_results_def Let_def)
qed







lemma overrun_spi_average:
  "trend_average 3 (map h_spi (sort_key month (h_rows overrun_history))) = Inr (Some (- 1))"
  by code_simp





subsection \<open>Missing planned dates\<close>






section \<open>Verification: the forecast batch and its cache\<close>

lemma keys_dict_set: "fst ` set (dict_set k v d) = insert k (fst ` set d)"
  by (induction d) auto

lemma keys_forecast_loop:
  "fst ` set (forecast_loop narrate clk st i ps d) = project_id ` set ps \<union> fst ` set d"
  by (induction ps arbitrary: i d) (auto simp: Let_def keys_dict_set)


lemma cache_valid_iff:
  "cache_valid now st \<longleftrightarrow>
     (\<exists>d t. project_forecasts st = Some d \<and> d \<noteq> [] \<and> forecast_generated_at st = Some t
        \<and> (now - t) * 86400 < 3600)"
  by (auto simp: cache_valid_def split: option.splits)

text \<open>
  Claim C8, as the code has it. With the data loaded, the cached dictionary is returned,
  and the session left as it is, exactly when a cached dictionary is stored and not
  empty, a timestamp is stored, and the timestamp is less than 3600 seconds before the
  check; otherwise the forecasts of all projects are recomputed and stored with the time
  read after the loop. A timestamp of an hour or more before the check never validates
  the cache. Without loaded data the function returns the empty dictionary and neither
  serves nor refreshes the cache.
\<close>

theorem forecast_cache:
  "(data_loaded st \<and> cache_valid (at_check clk) st \<longrightarrow>
      (\<exists>d. project_forecasts st = Some d \<and> generate_project_forecasts narrate clk st = (d, st)))
   \<and> (data_loaded st \<and> \<not> cache_valid (at_check clk) st \<longrightarrow>
        generate_project_forecasts narrate clk st =
          (forecast_loop narrate clk st 0 (session_projects st) [],
           st\<lparr>project_forecasts := Some (forecast_loop narrate clk st 0 (session_projects st) []),
              forecast_generated_at := Some (at_store clk)\<rparr>)
        \<and> fst ` set (forecast_loop narrate clk st 0 (session_projects st) [])
             = project_id ` set (session_projects st))
   \<and> (\<not> data_loaded st \<longrightarrow> generate_project_forecasts narrate clk st = ([], st))
   \<and> (cache_valid (at_check clk) st \<longleftrightarrow>
        (\<exists>d t. project_forecasts st = Some d \<and> d \<noteq> [] \<and> forecast_generated_at st = Some t
           \<and> (at_check clk - t) * 86400 < 3600))
   \<and> (\<forall>t. forecast_generated_at st = Some t \<and> 3600 \<le> (at_check clk - t) * 86400
        \<longrightarrow> \<not> cache_valid (at_check clk) st)"
proof (intro conjI allI impI)
  assume a: "data_loaded st \<and> cache_valid (at_check clk) st"
  then obtain d where d: "project_forecasts st = Some d"
    by (auto simp: cache_valid_iff)
  with a show "\<exists>d. project_forecasts st = Some d \<and> generate_project_forecasts narrate clk st = (d, st)"
    by (simp add: generate_project_forecasts_def)
next
  assume a: "data_loaded st \<and> \<not> cache_valid (at_check clk) st"
  then show "generate_project_forecasts narrate clk st =
          (forecast_loop narrate clk st 0 (session_projects st) [],
           st\<lparr>project_forecasts := Some (forecast_loop narrate clk st 0 (session_projects st) []),
              forecast_generated_at := Some (at_store clk)\<rparr>)"
    by (simp add: generate_project_forecasts_def Let_def)
  show "fst ` set (forecast_loop narrate clk st 0 (session_projects st) [])
             = project_id ` set (session_projects st)"
    by (simp add: keys_forecast_loop)
next
  assume "\<not> data_loaded st"
  then show "generate_project_forecasts narrate clk st = ([], st)"
    by (simp add: generate_project_forecasts_def)
next
  show "cache_valid (at_check clk) st \<longleftrightarrow>
        (\<exists>d t. project_forecasts st = Some d \<and> d \<noteq> [] \<and> forecast_generated_at st = Some t
           \<and> (at_check clk - t) * 86400 < 3600)"
    by (rule cache_valid_iff)
next
  fix t
  assume "forecast_generated_at st = Some t \<and> 3600 \<le> (at_check clk - t) * 86400"
  then show "\<not> cache_valid (at_check clk) st"
    by (auto simp: cache_valid_iff)
qed

lemma fresh_session_forecasts:
  "forecast_loop no_insights example_clock fresh_session 0 (session_projects fresh_session) [] =
     [(''P001'',
       \<lparr>forecast_completion_date = Some 100, completion_confidence = 70,
        forecast_final_cost = Some 1000, schedule_variance_days = 0,
        cost_variance = 0, risk_factors = [], insights = [],
        entry_is_anomaly = False, entry_anomaly_score = 0\<rparr>),
      (''P002'',
       \<lparr>forecast_completion_date = None, completion_confidence = 0,
        forecast_final_cost = Some 1000, schedule_variance_days = 0,
        cost_variance = 0, risk_factors = [], insights = [],
        entry_is_anomaly = False, entry_anomaly_score = 0\<rparr>)]"
  by code_simp

text \<open>
  The theorem on a loaded session: the first call computes two forecasts and stores the
  time; a call half an hour later is served from the cache; one hour later the cache is
  no longer valid.
\<close>

theorem forecast_cache_witness:
  "data_loaded fresh_session \<and> \<not> cache_valid (at_check example_clock) fresh_session
   \<and> map fst (fst (generate_project_forecasts no_insights example_clock fresh_session))
        = [''P001'', ''P002'']
   \<and> forecast_generated_at (snd (generate_project_forecasts no_insights example_clock fresh_session))
        = Some 50
   \<and> cache_valid (at_check (example_clock\<lparr>at_check := 50 + 1 / 48\<rparr>))
        (snd (generate_project_forecasts no_insights example_clock fresh_session))
   \<and> fst (generate_project_forecasts no_insights (example_clock\<lparr>at_check := 50 + 1 / 48\<rparr>)
        (snd (generate_project_forecasts no_insights example_clock fresh_session)))
       = fst (generate_project_forecasts no_insights example_clock fresh_session)
   \<and> \<not> cache_valid (at_check (example_clock\<lparr>at_check := 50 + 1 / 24\<rparr>))
        (snd (generate_project_forecasts no_insights example_clock fresh_session))"
proof -
  let ?st = "fresh_session"
  let ?r = "generate_project_forecasts no_insights example_clock fresh_session"
  have h: "data_loaded ?st \<and> \<not> cache_valid (at_check example_clock) ?st"
    by (simp add: fresh_session_def cache_valid_def)
  note fc = forecast_cache[of ?st example_clock no_insights]
  from fc[THEN conjunct2, THEN conjunct1, rule_format, OF h, THEN conjunct1]
  have r: "?r = (forecast_loop no_insights example_clock ?st 0 (session_projects ?st) [],
           ?st\<lparr>project_forecasts := Some (forecast_loop no_insights example_clock ?st 0 (session_projects ?st) []),
              forecast_generated_at := Some (at_store example_clock)\<rparr>)" .
  let ?st' = "snd ?r"
  have 1: "map fst (fst ?r) = [''P001'', ''P002'']"
    unfolding r fresh_session_forecasts by simp
  have 2: "forecast_generated_at ?st' = Some 50"
    unfolding r by (simp add: example_clock_def)
  have l: "data_loaded ?st'" unfolding r by (simp add: fresh_session_def)
  have pf: "project_forecasts ?st' = Some (fst ?r)" unfolding r by simp
  have ne: "fst ?r \<noteq> []" unfolding r fresh_session_forecasts by simp
  have 3: "cache_valid (at_check (example_clock\<lparr>at_check := 50 + 1 / 48\<rparr>)) ?st'"
    using pf ne 2 by (simp add: cache_valid_def)
  from forecast_cache[of ?st' "example_clock\<lparr>at_check := 50 + 1 / 48\<rparr>" no_insights,
      THEN conjunct1, rule_format, OF conjI[OF l 3]] pf
  have 4: "fst (generate_project_forecasts no_insights (example_clock\<lparr>at_check := 50 + 1 / 48\<rparr>) ?st')
       = fst ?r"
    by auto
  have "forecast_generated_at ?st' = Some 50
      \<and> 3600 \<le> (at_check (example_clock\<lparr>at_check := 50 + 1 / 24\<rparr>) - 50) * 86400"
    using 2 by simp
  from forecast_cache[of ?st' "example_clock\<lparr>at_check := 50 + 1 / 24\<rparr>" no_insights,
      THEN conjunct2, THEN conjunct2, THEN conjunct2, THEN conjunct2, rule_format, OF this]
  have 5: "\<not> cache_valid (at_check (example_clock\<lparr>at_check := 50 + 1 / 24\<rparr>)) ?st'" .
  from h 1 2 3 4 5 show ?thesis by (intro conjI) simp_all
qed

text \<open>
  Claim C8 as stated fails when the data is not loaded: a cache stored a quarter of an
  hour before the call is not returned, and a cache stored more than a day before is
  neither recomputed nor given a new timestamp. Both calls return the empty dictionary
  and leave the session unchanged.
\<close>

theorem unloaded_session_serves_nothing:
  "cache_valid (at_check example_clock) unloaded_session
   \<and> project_forecasts unloaded_session = Some [(''P001'', cached_entry)]
   \<and> generate_project_forecasts no_insights example_clock unloaded_session = ([], unloaded_session)
   \<and> \<not> cache_valid (at_check (example_clock\<lparr>at_check := 51\<rparr>)) unloaded_session
   \<and> generate_project_forecasts no_insights (example_clock\<lparr>at_check := 51\<rparr>) unloaded_session
        = ([], unloaded_session)
   \<and> forecast_generated_at unloaded_session = Some (50 - 1 / 96)"
  by (simp add: generate_project_forecasts_def cache_valid_def unloaded_session_def example_clock_def)













section \<open>Verification: the attention filter\<close>



















section \<open>Verification: the anomaly entry points leave their arguments alone\<close>

lemma alloc_frame:
  assumes "alloc h v = (h', a)"
  shows "take (length h) h' = h" "a = length h" "length h' = Suc (length h)" "deref h' a = Some v"
  using assms by (auto simp: alloc_def deref_def)

lemma take_update_above: "n \<le> a \<Longrightarrow> take n (h[a := v]) = take n h"
  by simp

lemma loop_store_frame:
  assumes "small_sample_loop_store h an midx cs = (h', e)" and "n \<le> an"
  shows "take n h' = take n h \<and> length h' = length h"
  using assms
proof (induction cs arbitrary: h)
  case Nil
  then show ?case by simp
next
  case (Cons c cs)
  show ?case
  proof (cases "deref h an")
    case None
    with Cons.prems show ?thesis by simp
  next
    case (Some ob)
    show ?thesis
    proof (cases ob)
      case (Anomalies a)
      show ?thesis
      proof (cases "check_bool_indexer (a_index a) midx (outliers (snd c))")
        case (Inl x)
        with Cons.prems Some Anomalies show ?thesis by simp
      next
        case (Inr msk)
        with Cons.prems(1) Some Anomalies
        have "small_sample_loop_store (h[an := Anomalies (flag_rows msk a)]) an midx cs = (h', e)"
          by simp
        from Cons.IH[OF this Cons.prems(2)] Cons.prems(2) show ?thesis by simp
      qed
    qed (use Cons.prems Some in simp_all)
  qed
qed

lemma set_column_frame:
  assumes "set_column h a name c = (h', e)" and "n \<le> a"
  shows "take n h' = take n h \<and> length h' = length h"
  using assms
  by (auto simp: set_column_def split: option.splits obj.splits if_splits)

lemma store_flags_frame:
  assumes "store_flags h a scores flags = (h', r)" and "n \<le> a"
  shows "take n h' = take n h \<and> length h' = length h"
proof -
  obtain h1 e1 where 1: "set_column h a ''anomaly_score'' scores = (h1, e1)"
    by (cases "set_column h a ''anomaly_score'' scores")
  note f1 = set_column_frame[OF 1 assms(2)]
  show ?thesis
  proof (cases e1)
    case (Some x)
    with assms(1) 1 f1 show ?thesis by (simp add: store_flags_def)
  next
    case None
    obtain h2 e2 where 2: "set_column h1 a ''is_anomaly'' flags = (h2, e2)"
      by (cases "set_column h1 a ''is_anomaly'' flags")
    note f2 = set_column_frame[OF 2 assms(2)]
    from assms(1) 1 2 None have "h' = h2" by (simp add: store_flags_def split: option.splits)
    with f1 f2 show ?thesis by simp
  qed
qed

lemma store_flags_result:
  assumes "store_flags h a scores flags = (h', Inr r)"
  shows "r = a"
  using assms
  by (auto simp: store_flags_def split: prod.splits option.splits)

lemma app_detect_frame:
  assumes "detect_project_anomalies_store forest h pr mr c = (h', r)"
  shows "take (length h) h' = h \<and> length h \<le> r \<and> r < length h'"
proof -
  have e: "take (length h) h'' = h \<and> length h \<le> r' \<and> r' < length h''"
    if "alloc h0 empty_frame = (h'', r')" "take (length h) h0 = h" "length h \<le> length h0"
    for h0 h'' r'
    using that by (auto simp: alloc_def)
  show ?thesis
  proof (cases "deref h pr")
    case None
    with assms e[of h] show ?thesis by (simp add: detect_project_anomalies_store_def)
  next
    case (Some po)
    show ?thesis
    proof (cases po)
      case (Frame projects_df)
      show ?thesis
      proof (cases "deref h mr")
        case None
        with assms Some Frame e[of h] show ?thesis
          by (simp add: detect_project_anomalies_store_def)
      next
        case (Some mo)
        show ?thesis
        proof (cases mo)
          case (Frame metrics_df)
          note b = \<open>deref h pr = Some po\<close> \<open>po = Frame projects_df\<close> Some Frame
          show ?thesis
          proof (cases "frame_empty projects_df \<or> frame_empty metrics_df")
            case True
            with assms b e[of h] show ?thesis
              by (simp add: detect_project_anomalies_store_def)
          next
            case False
            let ?h2 = "h @ [obj.Frame metrics_df] @ [obj.Frame (fillna_mean metrics_df)]"
            have h2: "take (length h) ?h2 = h" "length h \<le> length ?h2" by simp_all
            show ?thesis
            proof (cases "length (index (fillna_mean metrics_df)) < 10")
              case True
              let ?h3 = "?h2 @ [Anomalies (initial_anomalies (index projects_df))]"
              let ?an = "length ?h2"
              obtain h4 er where l: "small_sample_loop_store ?h3 ?an (index (fillna_mean metrics_df))
                  (columns (fillna_mean metrics_df)) = (h4, er)"
                by (cases "small_sample_loop_store ?h3 ?an (index (fillna_mean metrics_df))
                  (columns (fillna_mean metrics_df))")
              from loop_store_frame[OF l, of "length h"]
              have f: "take (length h) h4 = h" "length h4 = length ?h3" by simp_all
              from assms b False True l
              have r: "(h', r) = (case er of None \<Rightarrow> (h4, ?an) | Some x \<Rightarrow> alloc h4 empty_frame)"
                by (cases er) (simp_all add: detect_project_anomalies_store_def alloc_def Let_def)
              show ?thesis
              proof (cases er)
                case None
                with r f show ?thesis by simp
              next
                case (Some x)
                with r have "alloc h4 empty_frame = (h', r)" by simp
                from e[OF this] f show ?thesis by simp
              qed
            next
              case big: False
              from assms b False big
              have "\<exists>v. alloc ?h2 v = (h', r)"
                by (auto simp: detect_project_anomalies_store_def alloc_def Let_def split: sum.splits)
              then show ?thesis by (auto simp: alloc_def)
            qed
          qed
        qed (use assms \<open>deref h pr = Some po\<close> \<open>po = Frame projects_df\<close> Some e[of h] in
              \<open>simp_all add: detect_project_anomalies_store_def\<close>)
      qed
    qed (use assms Some e[of h] in \<open>simp_all add: detect_project_anomalies_store_def\<close>)
  qed
qed

lemma store_flags_after_alloc:
  assumes "store_flags (h @ [v]) (length h) scores flags = (h', r)"
  shows "take (length h) h' = h \<and> (\<forall>a. r = Inr a \<longrightarrow> length h \<le> a \<and> a < length h')"
proof -
  from store_flags_frame[OF assms, of "length h"]
  have f: "take (length h) h' = h" "length h' = Suc (length h)" by simp_all
  have "a = length h" if "r = Inr a" for a
    using assms that store_flags_result by blast
  with f show ?thesis by simp
qed

lemma aa_detect_frame:
  assumes "aa_detect_project_anomalies_store predict scale h ref metrics c = (h', r)"
  shows "take (length h) h' = h
     \<and> (\<forall>a. r = Inr a \<longrightarrow> (a = ref \<and> h' = h) \<or> (length h \<le> a \<and> a < length h'))"
proof (cases "deref h ref")
  case None
  with assms show ?thesis by (auto simp: aa_detect_project_anomalies_store_def)
next
  case (Some ob)
  show ?thesis
  proof (cases ob)
    case (Table t)
    let ?valid = "filter (\<lambda>n. n \<in> set (numeric_names t))
        (case metrics of None \<Rightarrow> default_metrics | Some ms \<Rightarrow> ms)"
    show ?thesis
    proof (cases "table_empty t \<or> ?valid = []")
      case True
      with assms Some Table show ?thesis
        by (auto simp: aa_detect_project_anomalies_store_def Let_def split: if_splits)
    next
      case False
      let ?h1 = "h @ [Table t]"
      show ?thesis
      proof (cases "scale (filled_columns t ?valid)")
        case (Inl e)
        with assms Some Table False show ?thesis
          by (auto simp: aa_detect_project_anomalies_store_def Let_def alloc_def)
      next
        case (Inr scaled)
        show ?thesis
        proof (cases "predict c scaled")
          case (Inl e)
          with assms Some Table False Inr show ?thesis
            by (auto simp: aa_detect_project_anomalies_store_def Let_def alloc_def)
        next
          case pr: (Inr predictions)
          from assms Some Table False Inr pr
          have "store_flags ?h1 (length h) (NumCol (map (\<lambda>p. Some (of_int p)) predictions))
                  (BoolCol (map (\<lambda>p. p = - 1) predictions)) = (h', r)"
            by (auto simp: aa_detect_project_anomalies_store_def Let_def alloc_def)
          from store_flags_after_alloc[OF this] show ?thesis by blast
        qed
      qed
    qed
  qed (use assms Some in \<open>auto simp: aa_detect_project_anomalies_store_def\<close>)
qed

lemma pa_detect_frame:
  assumes "detect_anomalies_store predict scale h ref method c = (h', r)"
  shows "take (length h) h' = h
     \<and> (\<forall>a. r = Inr a \<longrightarrow> (a = ref \<and> h' = h) \<or> (length h \<le> a \<and> a < length h'))"
proof (cases "deref h ref")
  case None
  with assms show ?thesis by (auto simp: detect_anomalies_store_def)
next
  case (Some ob)
  show ?thesis
  proof (cases ob)
    case (Table t)
    let ?features = "filter is_feature (numeric_names t)"
    show ?thesis
    proof (cases "table_empty t \<or> ?features = []")
      case True
      with assms Some Table show ?thesis
        by (auto simp: detect_anomalies_store_def Let_def split: if_splits)
    next
      case False
      let ?h1 = "h @ [Table t]"
      let ?x = "filled_columns t ?features"
      consider (forest) "method = ''isolation_forest''"
        | (zscore) "method \<noteq> ''isolation_forest''" "method = ''zscore''"
        | (other) "method \<noteq> ''isolation_forest''" "method \<noteq> ''zscore''"
        by blast
      then show ?thesis
      proof cases
        case forest
        show ?thesis
        proof (cases "predict c ?x")
          case (Inl e)
          with assms Some Table False forest show ?thesis
            by (auto simp: detect_anomalies_store_def Let_def alloc_def)
        next
          case (Inr predictions)
          with assms Some Table False forest
          have "store_flags ?h1 (length h) (NumCol (map (\<lambda>p. Some (of_int p)) predictions))
                  (BoolCol (map (\<lambda>p. p = - 1) predictions)) = (h', r)"
            by (auto simp: detect_anomalies_store_def Let_def alloc_def)
          from store_flags_after_alloc[OF this] show ?thesis by blast
        qed
      next
        case zscore
        show ?thesis
        proof (cases "scale ?x")
          case (Inl e)
          with assms Some Table False zscore show ?thesis
            by (auto simp: detect_anomalies_store_def Let_def alloc_def)
        next
          case (Inr scaled)
          with assms Some Table False zscore
          have "store_flags ?h1 (length h) (NumCol (row_z_scores (length (t_index t)) scaled))
                  (BoolCol (map (\<lambda>z. nan_gt z (Some (5 / 2)))
                     (row_z_scores (length (t_index t)) scaled))) = (h', r)"
            by (auto simp: detect_anomalies_store_def Let_def alloc_def)
          from store_flags_after_alloc[OF this] show ?thesis by blast
        qed
      next
        case other
        with assms Some Table False show ?thesis
          by (auto simp: detect_anomalies_store_def Let_def alloc_def)
      qed
    qed
  qed (use assms Some in \<open>auto simp: detect_anomalies_store_def\<close>)
qed

lemma loop_store_refines:
  assumes "deref h an = Some (Anomalies a)"
  shows "(\<forall>a'. small_sample_loop midx cs a = Inr a' \<longrightarrow>
            small_sample_loop_store h an midx cs = (h[an := Anomalies a'], None))
     \<and> (\<forall>e. small_sample_loop midx cs a = Inl e \<longrightarrow>
            snd (small_sample_loop_store h an midx cs) = Some e)"
  using assms
proof (induction cs arbitrary: h a)
  case Nil
  then have "an < length h" "h ! an = Anomalies a"
    by (auto simp: deref_def split: if_splits)
  then have "h[an := Anomalies a] = h"
    by (metis list_update_id)
  then show ?case by simp
next
  case (Cons c cs)
  show ?case
  proof (cases "check_bool_indexer (a_index a) midx (outliers (snd c))")
    case (Inl e)
    with Cons.prems show ?thesis by simp
  next
    case (Inr msk)
    let ?h = "h[an := Anomalies (flag_rows msk a)]"
    from Cons.prems have "deref ?h an = Some (Anomalies (flag_rows msk a))"
      by (auto simp: deref_def split: if_splits)
    from Cons.IH[OF this] Cons.prems Inr show ?thesis by simp
  qed
qed

lemma deref_new: "deref (h @ [v]) (length h) = Some v"
  by (simp add: deref_def)

lemma app_detect_refines:
  assumes "deref h pr = Some (Frame projects_df)" and "deref h mr = Some (Frame metrics_df)"
    and "detect_project_anomalies_store forest h pr mr c = (h', r)"
  shows "deref h' r = Some (case detect_project_anomalies forest projects_df metrics_df c of
                              None \<Rightarrow> empty_frame | Some an \<Rightarrow> Anomalies an)"
proof (cases "frame_empty projects_df \<or> frame_empty metrics_df")
  case True
  with assms show ?thesis
    by (auto simp: detect_project_anomalies_store_def detect_project_anomalies_def detect_body_def
        alloc_def deref_new)
next
  case False
  let ?m = "fillna_mean metrics_df"
  let ?h2 = "h @ [obj.Frame metrics_df] @ [obj.Frame ?m]"
  show ?thesis
  proof (cases "length (index ?m) < 10")
    case True
    let ?a0 = "initial_anomalies (index projects_df)"
    let ?h3 = "?h2 @ [Anomalies ?a0]"
    let ?an = "length ?h2"
    have d: "deref ?h3 ?an = Some (Anomalies ?a0)"
      by (simp add: deref_def nth_append)
    note ref = loop_store_refines[OF d, of "index ?m" "columns ?m"]
    obtain h4 er where l: "small_sample_loop_store ?h3 ?an (index ?m) (columns ?m) = (h4, er)"
      by (cases "small_sample_loop_store ?h3 ?an (index ?m) (columns ?m)")
    from assms False True l
    have r: "(h', r) = (case er of None \<Rightarrow> (h4, ?an) | Some x \<Rightarrow> alloc h4 empty_frame)"
      by (cases er) (simp_all add: detect_project_anomalies_store_def alloc_def Let_def)
    show ?thesis
    proof (cases "small_sample_loop (index ?m) (columns ?m) ?a0")
      case (Inl e)
      with ref l have "er = Some e" by simp
      with r have "deref h' r = Some empty_frame" by (simp add: alloc_def deref_new)
      with False True Inl show ?thesis
        by (simp add: detect_project_anomalies_def detect_body_def Let_def)
    next
      case (Inr a')
      with ref l have "h4 = ?h3[?an := Anomalies a']" "er = None" by simp_all
      with r have "deref h' r = Some (Anomalies a')" by (simp add: deref_def)
      with False True Inr show ?thesis
        by (simp add: detect_project_anomalies_def detect_body_def Let_def)
    qed
  next
    case big: False
    have al: "deref (fst (alloc ?h2 v)) (snd (alloc ?h2 v)) = Some v" for v :: "'a obj"
      by (simp add: alloc_def deref_def nth_append)
    show ?thesis
    proof (cases "forest_anomalies forest c (index projects_df) ?m")
      case (Inl e)
      with assms False big have "(h', r) = alloc ?h2 empty_frame"
        by (simp add: detect_project_anomalies_store_def alloc_def Let_def)
      then have "deref h' r = Some empty_frame"
        using al[of empty_frame] by (metis fst_conv snd_conv)
      with False big Inl show ?thesis
        by (simp add: detect_project_anomalies_def detect_body_def Let_def)
    next
      case (Inr a)
      with assms False big have "(h', r) = alloc ?h2 (Anomalies a)"
        by (simp add: detect_project_anomalies_store_def alloc_def Let_def)
      then have "deref h' r = Some (Anomalies a)"
        using al[of "Anomalies a"] by (metis fst_conv snd_conv)
      with False big Inr show ?thesis
        by (simp add: detect_project_anomalies_def detect_body_def Let_def)
    qed
  qed
qed

lemma zscore_example:
  "detect_anomalies_store all_inliers unit_scale [Table example_table] 0 ''zscore'' (5 / 100) =
     ([Table example_table,
       Table (example_table\<lparr>t_columns := t_columns example_table @
                [(''anomaly_score'', NumCol [Some 1, Some 2, Some 3]),
                 (''is_anomaly'', BoolCol [False, False, True])]\<rparr>)], Inr 1)"
  by code_simp

lemma aa_example:
  "aa_detect_project_anomalies_store all_inliers unit_scale [Table example_table] 0 None (1 / 10) =
     ([Table example_table,
       Table (example_table\<lparr>t_columns := t_columns example_table @
                [(''anomaly_score'', NumCol [Some 1, Some 1, Some 1]),
                 (''is_anomaly'', BoolCol [False, False, False])]\<rparr>)], Inr 1)"
  by code_simp

text \<open>
  Claim C9. Each of the three entry points leaves every object that was in the store
  before the call as it was, its arguments among them: the store before the call is a
  prefix of the store after it. The function of app.py returns a newly allocated frame,
  which holds what the function computes on the two argument frames; the two functions of
  \<open>utils\<close> return either their argument, with the store untouched, or a newly
  allocated copy that carries the two new columns.
\<close>

theorem detection_keeps_arguments:
  "(\<forall>h' r. detect_project_anomalies_store forest h projects_ref metrics_ref contamination = (h', r) \<longrightarrow>
       take (length h) h' = h \<and> length h \<le> r \<and> r < length h'
       \<and> (\<forall>projects_df metrics_df.
             deref h projects_ref = Some (Frame projects_df)
             \<and> deref h metrics_ref = Some (Frame metrics_df) \<longrightarrow>
             deref h' r = Some (case detect_project_anomalies forest projects_df metrics_df contamination of
                                 None \<Rightarrow> empty_frame | Some an \<Rightarrow> Anomalies an)))
   \<and> (\<forall>h' r. aa_detect_project_anomalies_store predict scale h data_ref metrics contamination = (h', r) \<longrightarrow>
         take (length h) h' = h
         \<and> (\<forall>a. r = Inr a \<longrightarrow> (a = data_ref \<and> h' = h) \<or> (length h \<le> a \<and> a < length h')))
   \<and> (\<forall>h' r. detect_anomalies_store predict scale h data_ref method contamination = (h', r) \<longrightarrow>
         take (length h) h' = h
         \<and> (\<forall>a. r = Inr a \<longrightarrow> (a = data_ref \<and> h' = h) \<or> (length h \<le> a \<and> a < length h')))"
proof (intro conjI allI impI)
  fix h' r
  assume a: "detect_project_anomalies_store forest h projects_ref metrics_ref contamination = (h', r)"
  from app_detect_frame[OF a]
  show "take (length h) h' = h" "length h \<le> r" "r < length h'" by simp_all
  fix projects_df metrics_df
  assume "deref h projects_ref = Some (Frame projects_df)
             \<and> deref h metrics_ref = Some (Frame metrics_df)"
  then show "deref h' r = Some (case detect_project_anomalies forest projects_df metrics_df contamination of
                                 None \<Rightarrow> empty_frame | Some an \<Rightarrow> Anomalies an)"
    using a by (intro app_detect_refines) auto
next
  fix h' r
  assume a: "aa_detect_project_anomalies_store predict scale h data_ref metrics contamination = (h', r)"
  from aa_detect_frame[OF a] show "take (length h) h' = h" by simp
  fix b assume "r = Inr b"
  with aa_detect_frame[OF a] show "(b = data_ref \<and> h' = h) \<or> (length h \<le> b \<and> b < length h')"
    by blast
next
  fix h' r
  assume a: "detect_anomalies_store predict scale h data_ref method contamination = (h', r)"
  from pa_detect_frame[OF a] show "take (length h) h' = h" by simp
  fix b assume "r = Inr b"
  with pa_detect_frame[OF a] show "(b = data_ref \<and> h' = h) \<or> (length h \<le> b \<and> b < length h')"
    by blast
qed

text \<open>
  The theorem at the nine projects of the small-sample example, and at a table with a
  missing SPI: the table at address 0 still has the missing cell, and the copy at
  address 1 has the scores and flags.
\<close>

theorem detection_keeps_arguments_witness:
  "take 2 (fst (detect_project_anomalies_store no_forest
        [Frame example_projects, Frame example_metrics] 0 1 (1 / 10)))
      = [Frame example_projects, Frame example_metrics]
   \<and> deref (fst (detect_project_anomalies_store no_forest
        [Frame example_projects, Frame example_metrics] 0 1 (1 / 10)))
       (snd (detect_project_anomalies_store no_forest
        [Frame example_projects, Frame example_metrics] 0 1 (1 / 10)))
      = Some (Anomalies (initial_anomalies (index example_projects)))
   \<and> detect_anomalies_store all_inliers unit_scale [Table example_table] 0 ''zscore'' (5 / 100) =
     ([Table example_table,
       Table (example_table\<lparr>t_columns := t_columns example_table @
                [(''anomaly_score'', NumCol [Some 1, Some 2, Some 3]),
                 (''is_anomaly'', BoolCol [False, False, True])]\<rparr>)], Inr 1)
   \<and> take 1 (fst (detect_anomalies_store all_inliers unit_scale [Table example_table] 0
        ''zscore'' (5 / 100))) = [Table example_table]
   \<and> take 1 (fst (aa_detect_project_anomalies_store all_inliers unit_scale [Table example_table] 0
        None (1 / 10))) = [Table example_table]"
proof -
  let ?h = "[Frame example_projects, Frame example_metrics]"
  let ?r = "detect_project_anomalies_store no_forest ?h 0 1 (1 / 10)"
  note t = detection_keeps_arguments[of no_forest ?h 0 1 "1 / 10"]
  have e: "?r = (fst ?r, snd ?r)" by simp
  note app = t[THEN conjunct1, rule_format, OF e]
  have d: "deref ?h 0 = Some (Frame example_projects) \<and> deref ?h 1 = Some (Frame example_metrics)"
    by (simp add: deref_def)
  have c: "\<not> frame_empty example_projects" "\<not> frame_empty example_metrics"
    "wf_frame example_metrics" "index example_metrics = index example_projects"
    "length (index example_metrics) < 10"
    by (simp_all add: frame_empty_def wf_frame_def example_projects_def example_metrics_def)
  from app have 1: "take 2 (fst ?r) = ?h" by (simp add: numeral_2_eq_2)
  from app[THEN conjunct2, THEN conjunct2, THEN conjunct2, rule_format, OF d]
  have 2: "deref (fst ?r) (snd ?r) = Some (Anomalies (initial_anomalies (index example_projects)))"
    unfolding detect_small_unflagged[OF c] by simp
  let ?z = "detect_anomalies_store all_inliers unit_scale [Table example_table] 0 ''zscore'' (5 / 100)"
  have ez: "?z = (fst ?z, snd ?z)" by simp
  from detection_keeps_arguments[of no_forest "[Table example_table]" 0 0 "5 / 100" all_inliers
      unit_scale 0 None "''zscore''", THEN conjunct2, THEN conjunct2, rule_format, OF ez]
  have 3: "take 1 (fst ?z) = [Table example_table]" by simp
  let ?a = "aa_detect_project_anomalies_store all_inliers unit_scale [Table example_table] 0
        None (1 / 10)"
  have ea: "?a = (fst ?a, snd ?a)" by simp
  from detection_keeps_arguments[of no_forest "[Table example_table]" 0 0 "1 / 10" all_inliers
      unit_scale 0 None "''zscore''", THEN conjunct2, THEN conjunct1, rule_format, OF ea]
  have 4: "take 1 (fst ?a) = [Table example_table]" by simp
  from 1 2 zscore_example 3 4 show ?thesis by (intro conjI)
qed

end
